theory Spec2Isabelle
  imports Complex_Main
begin

section \<open>Values of the runtime\<close>

text \<open>
  The program is TypeScript running in a browser. Its strings are modelled as
  \<^typ>\<open>string\<close>, read as sequences of code units below 256 (the Latin-1 range);
  a value that may be \<^verbatim>\<open>undefined\<close> is an \<^typ>\<open>'a option\<close>; a thrown
  exception is the left summand of a sum type.
\<close>

datatype js_error =
    Error string
  | TypeError
  | RangeError
  | SyntaxError
  | DOMException string

datatype js_number = NaN | Infinity bool | Finite rat

datatype js_value =
    Undefined
  | Null
  | Boolean bool
  | Number js_number
  | String string
  | Array "js_value list"
  | Object "(string \<times> js_value) list"

text \<open>Truthiness, as \<^verbatim>\<open>!x\<close>, \<^verbatim>\<open>x || y\<close> and \<^verbatim>\<open>if (x)\<close> read it.\<close>

fun truthy :: "js_value \<Rightarrow> bool" where
  "truthy Undefined = False"
| "truthy Null = False"
| "truthy (Boolean b) = b"
| "truthy (Number n) = (n \<noteq> NaN \<and> n \<noteq> Finite 0)"
| "truthy (String s) = (s \<noteq> [])"
| "truthy (Array xs) = True"
| "truthy (Object kvs) = True"

text \<open>Truthiness of a value typed \<^verbatim>\<open>string | undefined\<close>.\<close>

definition truthyStr :: "string option \<Rightarrow> bool" where
  "truthyStr v = (case v of None \<Rightarrow> False | Some s \<Rightarrow> s \<noteq> [])"

text \<open>
  Reading the member \<open>k\<close> of a value: a \<^verbatim>\<open>TypeError\<close> on \<^verbatim>\<open>null\<close> and
  \<^verbatim>\<open>undefined\<close>, the own property of an object, and \<^verbatim>\<open>undefined\<close> otherwise
  (the member names the program reads, \<^verbatim>\<open>clients\<close>, \<^verbatim>\<open>profile\<close> and
  \<^verbatim>\<open>lastUpdated\<close>, are defined by no built-in prototype).
\<close>

fun getMember :: "js_value \<Rightarrow> string \<Rightarrow> js_error + js_value" where
  "getMember Undefined k = Inl TypeError"
| "getMember Null k = Inl TypeError"
| "getMember (Object kvs) k = (case map_of kvs k of None \<Rightarrow> Inr Undefined | Some v \<Rightarrow> Inr v)"
| "getMember v k = Inr Undefined"

subsection \<open>Strings\<close>

definition dquote :: char where
  "dquote = CHR 0x22"

definition LF :: char where
  "LF = CHR 0x0A"

definition CR :: char where
  "CR = CHR 0x0D"

text \<open>The white space and line terminators that \<^verbatim>\<open>String.prototype.trim\<close> strips.\<close>

definition isWhiteSpace :: "char \<Rightarrow> bool" where
  "isWhiteSpace c = (c \<in> set [CHR 0x09, CHR 0x0A, CHR 0x0B, CHR 0x0C, CHR 0x0D, CHR 0x20, CHR 0xA0])"

definition trim :: "string \<Rightarrow> string" where
  "trim s = rev (dropWhile isWhiteSpace (rev (dropWhile isWhiteSpace s)))"

definition toLowerCaseChar :: "char \<Rightarrow> char" where
  "toLowerCaseChar c =
     (let n = (of_char c :: nat)
      in if (65 \<le> n \<and> n \<le> 90) \<or> (192 \<le> n \<and> n \<le> 222 \<and> n \<noteq> 215)
         then char_of (n + 32) else c)"

definition toLowerCase :: "string \<Rightarrow> string" where
  "toLowerCase s = map toLowerCaseChar s"

fun startsWith :: "string \<Rightarrow> string \<Rightarrow> bool" where
  "startsWith s [] = True"
| "startsWith [] (k # ks) = False"
| "startsWith (c # cs) (k # ks) = (c = k \<and> startsWith cs ks)"

text \<open>\<^verbatim>\<open>s.includes(k)\<close>: \<open>k\<close> occurs in \<open>s\<close> as a substring.\<close>

fun str_includes :: "string \<Rightarrow> string \<Rightarrow> bool" where
  "str_includes [] k = (k = [])"
| "str_includes (c # cs) k = (startsWith (c # cs) k \<or> str_includes cs k)"

text \<open>\<^verbatim>\<open>xs.findIndex(p)\<close>; \<open>None\<close> stands for the result \<open>-1\<close>.\<close>

fun findIndex :: "('a \<Rightarrow> bool) \<Rightarrow> 'a list \<Rightarrow> nat option" where
  "findIndex p [] = None"
| "findIndex p (x # xs) =
     (if p x then Some 0 else (case findIndex p xs of None \<Rightarrow> None | Some i \<Rightarrow> Some (Suc i)))"

text \<open>\<^verbatim>\<open>xs.join(sep)\<close>.\<close>

fun join :: "string \<Rightarrow> string list \<Rightarrow> string" where
  "join sep [] = []"
| "join sep [x] = x"
| "join sep (x # y # ys) = x @ sep @ join sep (y # ys)"

text \<open>\<^verbatim>\<open>s.split(',')\<close>, with the piece being read carried along.\<close>

fun splitComma :: "string \<Rightarrow> string \<Rightarrow> string list" where
  "splitComma [] cur = [cur]"
| "splitComma (c # cs) cur =
     (if c = CHR '','' then cur # splitComma cs [] else splitComma cs (cur @ [c]))"

text \<open>\<^verbatim>\<open>s.split(/\r?\n/)\<close>: a line ends at a line feed, with the carriage return before it.\<close>

fun splitLines :: "string \<Rightarrow> string \<Rightarrow> string list" where
  "splitLines [] cur = [cur]"
| "splitLines [c] cur = (if c = LF then [cur, []] else [cur @ [c]])"
| "splitLines (c # d # cs) cur =
     (if c = CR \<and> d = LF then cur # splitLines cs []
      else if c = LF then cur # splitLines (d # cs) []
      else splitLines (d # cs) (cur @ [c]))"

subsection \<open>The platform's dates\<close>

text \<open>
  \<^verbatim>\<open>Date\<close> is the platform's: \<open>dateParse s\<close> is the time value of
  \<^verbatim>\<open>new Date(s)\<close> in milliseconds (\<open>None\<close> for an invalid date),
  \<open>toISOString\<close> and \<open>toLocaleDateString\<close> print a valid time value. They are
  parameters of every function that uses dates.
\<close>

record date_api =
  dateParse :: "string \<Rightarrow> int option"
  toISOString :: "int \<Rightarrow> string"
  toLocaleDateString :: "int \<Rightarrow> string"

text \<open>\<^verbatim>\<open>new Date(s).toISOString()\<close> throws a \<^verbatim>\<open>RangeError\<close> on an invalid date.\<close>

definition newDate_toISOString :: "date_api \<Rightarrow> string \<Rightarrow> js_error + string" where
  "newDate_toISOString D s =
     (case dateParse D s of None \<Rightarrow> Inl RangeError | Some t \<Rightarrow> Inr (toISOString D t))"

text \<open>\<^verbatim>\<open>new Date(s).toLocaleDateString()\<close> prints an invalid date as \<^verbatim>\<open>Invalid Date\<close>.\<close>

definition newDate_toLocaleDateString :: "date_api \<Rightarrow> string \<Rightarrow> string" where
  "newDate_toLocaleDateString D s =
     (case dateParse D s of None \<Rightarrow> ''Invalid Date'' | Some t \<Rightarrow> toLocaleDateString D t)"

text \<open>\<^verbatim>\<open>new Date(a) > new Date(b)\<close>: false when either date is invalid.\<close>

definition date_gt :: "date_api \<Rightarrow> string \<Rightarrow> string \<Rightarrow> bool" where
  "date_gt D a b =
     (case dateParse D a of None \<Rightarrow> False
      | Some x \<Rightarrow> (case dateParse D b of None \<Rightarrow> False | Some y \<Rightarrow> y < x))"

section \<open>The data model (types.ts)\<close>

definition ClientStatus_NEW :: string where
  "ClientStatus_NEW = ''New''"

definition IndustrySector_OTHER :: string where
  "IndustrySector_OTHER = ''Other''"

definition Continent_NORTH_AMERICA :: string where
  "Continent_NORTH_AMERICA = ''North America''"

record ContactLog =
  log_id :: string
  log_date :: string
  log_type :: "string option"
  log_notes :: string

text \<open>
  A \<^verbatim>\<open>Client\<close>. The enumerations are strings at run time, and the CSV import stores
  any cell text in them. The fields the import fills from a cell may be
  \<^verbatim>\<open>undefined\<close>, whatever the interface declares.
\<close>

record Client =
  client_id :: string
  name :: string
  company :: string
  role :: "string option"
  email :: "string option"
  phone :: "string option"
  sector :: string
  status :: string
  statusUpdatedAt :: "string option"
  location :: "string option"
  continent :: string
  lat :: "js_number option"
  lng :: "js_number option"
  website :: "string option"
  lastContactDate :: "string option"
  nextFollowUpDate :: "string option"
  rate :: "string option"
  client_notes :: "string option"
  tags :: "string list"
  logs :: "ContactLog list"

section \<open>CSV export and import (services/storage.ts)\<close>

subsection \<open>exportToCSV\<close>

definition export_headers :: "string list" where
  "export_headers =
     [''Name'', ''Company'', ''Role'', ''Status'', ''Sector'', ''Email'', ''Phone'', ''Location'',
      ''Last Contact'', ''Next Follow Up'', ''Rate'', ''Notes'', ''Tags'']"

text \<open>\<^verbatim>\<open>text.replace(/"/g, '""')\<close>.\<close>

definition doubleQuotes :: "string \<Rightarrow> string" where
  "doubleQuotes s = concat (map (\<lambda>c. if c = dquote then [dquote, dquote] else [c]) s)"

definition esc :: "string option \<Rightarrow> string" where
  "esc text =
     (if \<not> truthyStr text then [dquote, dquote]
      else (case text of None \<Rightarrow> [dquote, dquote]
            | Some s \<Rightarrow> [dquote] @ doubleQuotes s @ [dquote]))"

text \<open>\<^verbatim>\<open>d ? new Date(d).toLocaleDateString() : ''\<close>.\<close>

definition export_date :: "date_api \<Rightarrow> string option \<Rightarrow> string" where
  "export_date D d =
     (case d of None \<Rightarrow> []
      | Some s \<Rightarrow> if s = [] then [] else newDate_toLocaleDateString D s)"

definition export_row :: "date_api \<Rightarrow> Client \<Rightarrow> string list" where
  "export_row D c =
     [esc (Some (name c)), esc (Some (company c)), esc (role c), esc (Some (status c)),
      esc (Some (sector c)), esc (email c), esc (phone c), esc (location c),
      esc (Some (export_date D (lastContactDate c))),
      esc (Some (export_date D (nextFollowUpDate c))),
      esc (rate c), esc (client_notes c), esc (Some (join '', '' (tags c)))]"

text \<open>
  \<open>exportToCSV\<close> is the text \<^verbatim>\<open>csvContent\<close> that the function hands to the
  browser as a download.
\<close>

definition exportToCSV :: "date_api \<Rightarrow> Client list \<Rightarrow> string" where
  "exportToCSV D clients =
     join [LF] (join '','' export_headers # map (\<lambda>c. join '','' (export_row D c)) clients)"

subsection \<open>parseCSV\<close>

text \<open>
  The loop of \<^verbatim>\<open>splitCSVLine\<close> over the characters still to read: \<open>res\<close>,
  \<open>current\<close> and \<open>inQuotes\<close> are its variables, and the character after the one
  being read is the head of the rest.
\<close>

fun splitCSVLine_loop :: "string \<Rightarrow> string list \<Rightarrow> string \<Rightarrow> bool \<Rightarrow> string list" where
  "splitCSVLine_loop [] res current inQuotes = res @ [current]"
| "splitCSVLine_loop [c] res current inQuotes =
     (if c = dquote then splitCSVLine_loop [] res current (\<not> inQuotes)
      else if c = CHR '','' \<and> \<not> inQuotes then splitCSVLine_loop [] (res @ [current]) [] inQuotes
      else splitCSVLine_loop [] res (current @ [c]) inQuotes)"
| "splitCSVLine_loop (c # d # cs) res current inQuotes =
     (if c = dquote then
        (if d = dquote then splitCSVLine_loop cs res (current @ [dquote]) inQuotes
         else splitCSVLine_loop (d # cs) res current (\<not> inQuotes))
      else if c = CHR '','' \<and> \<not> inQuotes then splitCSVLine_loop (d # cs) (res @ [current]) [] inQuotes
      else splitCSVLine_loop (d # cs) res (current @ [c]) inQuotes)"

definition splitCSVLine :: "string \<Rightarrow> string list" where
  "splitCSVLine line = splitCSVLine_loop line [] [] False"

definition parse_headers :: "string \<Rightarrow> string list" where
  "parse_headers line0 = map (\<lambda>h. toLowerCase (trim h)) (splitCSVLine line0)"

text \<open>
  \<^verbatim>\<open>val(keyPart)\<close>: the trimmed cell under the first header that contains the key,
  \<^verbatim>\<open>undefined\<close> when the row has no such cell, the empty string when no header
  contains the key.
\<close>

definition val :: "string list \<Rightarrow> string list \<Rightarrow> string \<Rightarrow> string option" where
  "val headers values keyPart =
     (case findIndex (\<lambda>h. str_includes h keyPart) headers of
        None \<Rightarrow> Some []
      | Some index \<Rightarrow> if index < length values then Some (trim (values ! index)) else None)"

text \<open>\<^verbatim>\<open>v || d\<close> on a cell.\<close>

definition orElse :: "string option \<Rightarrow> string \<Rightarrow> string" where
  "orElse v d = (case v of None \<Rightarrow> d | Some s \<Rightarrow> if s = [] then d else s)"

text \<open>\<^verbatim>\<open>v ? new Date(v).toISOString() : undefined\<close>.\<close>

definition import_date :: "date_api \<Rightarrow> string option \<Rightarrow> js_error + string option" where
  "import_date D v =
     (case v of None \<Rightarrow> Inr None
      | Some s \<Rightarrow> if s = [] then Inr None
                  else (case newDate_toISOString D s of Inl e \<Rightarrow> Inl e | Inr d \<Rightarrow> Inr (Some d)))"

text \<open>\<^verbatim>\<open>v ? v.split(',').map(t => t.trim()).filter(Boolean) : []\<close>.\<close>

definition import_tags :: "string option \<Rightarrow> string list" where
  "import_tags v =
     (case v of None \<Rightarrow> []
      | Some s \<Rightarrow> if s = [] then [] else filter (\<lambda>t. t \<noteq> []) (map trim (splitComma s [])))"

text \<open>
  The object literal \<^verbatim>\<open>newClient\<close> for a row whose name is \<open>nm\<close>; \<open>uuid\<close> is
  what \<^verbatim>\<open>crypto.randomUUID()\<close> returns for it. The two dates are evaluated in the
  order of the literal, and the first invalid one throws.
\<close>

definition newClient :: "date_api \<Rightarrow> string \<Rightarrow> string list \<Rightarrow> string list \<Rightarrow> string \<Rightarrow> js_error + Client" where
  "newClient D uuid headers values nm =
     (case import_date D (val headers values ''last contact'') of
        Inl e \<Rightarrow> Inl e
      | Inr lcd \<Rightarrow>
          (case import_date D (val headers values ''next follow'') of
             Inl e \<Rightarrow> Inl e
           | Inr nfu \<Rightarrow>
               Inr \<lparr> client_id = uuid,
                     name = nm,
                     company = orElse (val headers values ''company'') ''Unknown'',
                     role = val headers values ''role'',
                     email = val headers values ''email'',
                     phone = val headers values ''phone'',
                     sector = orElse (val headers values ''sector'') IndustrySector_OTHER,
                     status = orElse (val headers values ''status'') ClientStatus_NEW,
                     statusUpdatedAt = None,
                     location = val headers values ''location'',
                     continent = Continent_NORTH_AMERICA,
                     lat = None,
                     lng = None,
                     website = None,
                     lastContactDate = lcd,
                     nextFollowUpDate = nfu,
                     rate = val headers values ''rate'',
                     client_notes = val headers values ''notes'',
                     tags = import_tags (val headers values ''tags''),
                     logs = [] \<rparr>))"

text \<open>
  The body of the loop from the split cells on: \<open>None\<close> when the row is passed over
  (\<^verbatim>\<open>if (name)\<close> fails), the new client otherwise.
\<close>

definition rowClient :: "date_api \<Rightarrow> string \<Rightarrow> string list \<Rightarrow> string list \<Rightarrow> js_error + Client option" where
  "rowClient D uuid headers values =
     (case val headers values ''name'' of
        None \<Rightarrow> Inr None
      | Some nm \<Rightarrow>
          if nm = [] then Inr None
          else (case newClient D uuid headers values nm of
                  Inl e \<Rightarrow> Inl e
                | Inr c \<Rightarrow> Inr (Some c)))"

text \<open>The body of the loop for one line of the file.\<close>

definition parseRow :: "date_api \<Rightarrow> string \<Rightarrow> string list \<Rightarrow> string \<Rightarrow> js_error + Client option" where
  "parseRow D uuid headers rawLine =
     (let line = trim rawLine
      in if line = [] then Inr None
         else (let values = splitCSVLine line
               in if length values < 2 then Inr None
                  else rowClient D uuid headers values))"

text \<open>
  The loop over the lines after the header. \<open>randomUUID n\<close> is the identifier that
  the \<open>n\<close>-th call of \<^verbatim>\<open>crypto.randomUUID()\<close> returns, and \<open>n\<close> counts the calls
  made so far: only a row that becomes a client draws one. An exception ends the loop.
\<close>

fun parseCSV_loop :: "date_api \<Rightarrow> (nat \<Rightarrow> string) \<Rightarrow> nat \<Rightarrow> string list \<Rightarrow> string list \<Rightarrow> js_error + Client list" where
  "parseCSV_loop D randomUUID n headers [] = Inr []"
| "parseCSV_loop D randomUUID n headers (l # ls) =
     (case parseRow D (randomUUID n) headers l of
        Inl e \<Rightarrow> Inl e
      | Inr None \<Rightarrow> parseCSV_loop D randomUUID n headers ls
      | Inr (Some c) \<Rightarrow>
          (case parseCSV_loop D randomUUID (Suc n) headers ls of
             Inl e \<Rightarrow> Inl e
           | Inr cs \<Rightarrow> Inr (c # cs)))"

definition parseCSV :: "date_api \<Rightarrow> (nat \<Rightarrow> string) \<Rightarrow> nat \<Rightarrow> string \<Rightarrow> js_error + Client list" where
  "parseCSV D randomUUID n csvText =
     (case splitLines csvText [] of
        [] \<Rightarrow> Inr []
      | [l] \<Rightarrow> Inr []
      | l0 # l1 # ls \<Rightarrow> parseCSV_loop D randomUUID n (parse_headers l0) (l1 # ls))"

section \<open>The document and its validation (services/storage.ts)\<close>

text \<open>
  \<^verbatim>\<open>AppData\<close> as it is at run time: \<open>validateData\<close> passes members of the parsed
  JSON through unchecked, so the fields hold arbitrary values; \<^verbatim>\<open>null\<close> is \<open>Null\<close>.
\<close>

record AppData =
  clients :: "js_value list"
  profile :: js_value
  lastUpdated :: js_value

text \<open>
  \<open>now\<close> is the text of \<^verbatim>\<open>new Date().toISOString()\<close> at the call. The diagnostic
  \<^verbatim>\<open>console.warn\<close> does not change the result and is left out.
\<close>

definition validateData :: "string \<Rightarrow> js_value \<Rightarrow> js_error + AppData" where
  "validateData now data =
     (if \<not> truthy data then Inr \<lparr> clients = [], profile = Null, lastUpdated = String now \<rparr>
      else (case getMember data ''clients'' of
              Inl e \<Rightarrow> Inl e
            | Inr (Array xs) \<Rightarrow>
                (case getMember data ''profile'' of
                   Inl e \<Rightarrow> Inl e
                 | Inr p \<Rightarrow>
                     (case getMember data ''lastUpdated'' of
                        Inl e \<Rightarrow> Inl e
                      | Inr u \<Rightarrow>
                          Inr \<lparr> clients = xs,
                                profile = (if truthy p then p else Null),
                                lastUpdated = (if truthy u then u else String now) \<rparr>))
            | Inr other \<Rightarrow> Inr \<lparr> clients = [], profile = Null, lastUpdated = String now \<rparr>))"

text \<open>\<open>INITIAL_CLIENTS\<close> is a constant of a file that is not among the sources: a parameter.\<close>

definition createNewDatabase :: "js_value list \<Rightarrow> string \<Rightarrow> AppData" where
  "createNewDatabase INITIAL_CLIENTS now =
     \<lparr> clients = INITIAL_CLIENTS, profile = Null, lastUpdated = String now \<rparr>"

subsection \<open>Local storage\<close>

text \<open>
  The browser's \<^verbatim>\<open>localStorage\<close>: its entries, a capacity in code units, and whether
  the page may use it at all. \<open>setItem\<close> rejects a write that would exceed the
  capacity with a \<^verbatim>\<open>QuotaExceededError\<close>.
\<close>

record Storage =
  accessible :: bool
  quota :: nat
  items :: "(string \<times> string) list"

definition storedSize :: "(string \<times> string) list \<Rightarrow> nat" where
  "storedSize kvs = sum_list (map (\<lambda>kv. length (fst kv) + length (snd kv)) kvs)"

definition getItem :: "Storage \<Rightarrow> string \<Rightarrow> js_error + string option" where
  "getItem st k =
     (if \<not> accessible st then Inl (DOMException ''SecurityError'') else Inr (map_of (items st) k))"

definition setItem :: "Storage \<Rightarrow> string \<Rightarrow> string \<Rightarrow> js_error + Storage" where
  "setItem st k v =
     (if \<not> accessible st then Inl (DOMException ''SecurityError'')
      else (let kvs = (k, v) # filter (\<lambda>kv. fst kv \<noteq> k) (items st)
            in if quota st < storedSize kvs then Inl (DOMException ''QuotaExceededError'')
               else Inr (st\<lparr> items := kvs \<rparr>)))"

definition LOCAL_STORAGE_KEY :: string where
  "LOCAL_STORAGE_KEY = ''yongu_db_v1''"

text \<open>
  \<open>JSON_parse\<close> is the platform's \<^verbatim>\<open>JSON.parse\<close>, \<open>None\<close> where it throws a
  \<^verbatim>\<open>SyntaxError\<close>. The result \<open>None\<close> of \<open>loadFromLocalStorage\<close> is \<^verbatim>\<open>null\<close>;
  every exception of the \<^verbatim>\<open>try\<close> block ends in the \<^verbatim>\<open>catch\<close>, which returns it.
\<close>

definition loadFromLocalStorage :: "(string \<Rightarrow> js_value option) \<Rightarrow> string \<Rightarrow> Storage \<Rightarrow> AppData option" where
  "loadFromLocalStorage JSON_parse now st =
     (case getItem st LOCAL_STORAGE_KEY of
        Inl e \<Rightarrow> None
      | Inr None \<Rightarrow> None
      | Inr (Some stored) \<Rightarrow>
          if stored = [] then None
          else (case JSON_parse stored of
                  None \<Rightarrow> None
                | Some json \<Rightarrow>
                    (case validateData now json of Inl e \<Rightarrow> None | Inr data \<Rightarrow> Some data)))"

text \<open>What the user and the developer console see of a call.\<close>

datatype effect =
    ConsoleError string js_error
  | Alert string

text \<open>
  \<open>JSON_stringify indent data\<close> is the platform's \<^verbatim>\<open>JSON.stringify\<close>. The result of
  \<open>saveToLocalStorage\<close> is what the caller gets (an exception or a normal return),
  the storage afterwards, and the effects of the \<^verbatim>\<open>catch\<close> block.
\<close>

definition saveToLocalStorage ::
  "(nat \<Rightarrow> AppData \<Rightarrow> string) \<Rightarrow> Storage \<Rightarrow> AppData \<Rightarrow> (js_error + unit) \<times> Storage \<times> effect list" where
  "saveToLocalStorage JSON_stringify st data =
     (case setItem st LOCAL_STORAGE_KEY (JSON_stringify 0 data) of
        Inr st' \<Rightarrow> (Inr (), st', [])
      | Inl e \<Rightarrow>
          (Inr (), st,
           [ConsoleError ''Failed to save to local storage (quota exceeded?)'' e,
            Alert ''Warning: Local storage full. Some data may not be saved.'']))"

subsection \<open>Files\<close>

text \<open>
  A file handle with the text of its file. A picker of \<^verbatim>\<open>window\<close> is \<open>None\<close> when
  the platform has no such function; otherwise it holds how the call settles: with an
  exception (an \<^verbatim>\<open>AbortError\<close> when the user dismisses the dialog) or with the
  handle of the chosen file.
\<close>

record FileSystemFileHandle =
  file_name :: string
  file_text :: string
  file_writable :: bool

record Window =
  showOpenFilePicker :: "(js_error + FileSystemFileHandle) option"
  showSaveFilePicker :: "(js_error + FileSystemFileHandle) option"

datatype io_event =
    OpenPickerShown
  | SavePickerShown
  | FileRead string
  | FileWritten string string

definition openDatabaseFile ::
  "(string \<Rightarrow> js_value option) \<Rightarrow> string \<Rightarrow> Window
     \<Rightarrow> (js_error + AppData \<times> FileSystemFileHandle) \<times> io_event list" where
  "openDatabaseFile JSON_parse now w =
     (case showOpenFilePicker w of
        None \<Rightarrow> (Inl (Error ''NOT_SUPPORTED''), [])
      | Some (Inl e) \<Rightarrow> (Inl e, [OpenPickerShown])
      | Some (Inr handle) \<Rightarrow>
          (case JSON_parse (file_text handle) of
             None \<Rightarrow> (Inl SyntaxError, [OpenPickerShown, FileRead (file_name handle)])
           | Some json \<Rightarrow>
               (case validateData now json of
                  Inl e \<Rightarrow> (Inl e, [OpenPickerShown, FileRead (file_name handle)])
                | Inr data \<Rightarrow>
                    (Inr (data, handle), [OpenPickerShown, FileRead (file_name handle)]))))"

definition createDatabaseFile ::
  "(nat \<Rightarrow> AppData \<Rightarrow> string) \<Rightarrow> js_value list \<Rightarrow> string \<Rightarrow> Window
     \<Rightarrow> (js_error + AppData \<times> FileSystemFileHandle) \<times> io_event list" where
  "createDatabaseFile JSON_stringify INITIAL_CLIENTS now w =
     (case showSaveFilePicker w of
        None \<Rightarrow> (Inl (Error ''NOT_SUPPORTED''), [])
      | Some (Inl e) \<Rightarrow> (Inl e, [SavePickerShown])
      | Some (Inr handle) \<Rightarrow>
          (let data = createNewDatabase INITIAL_CLIENTS now
           in if \<not> file_writable handle
              then (Inl (DOMException ''NotAllowedError''), [SavePickerShown])
              else (Inr (data, handle\<lparr> file_text := JSON_stringify 2 data \<rparr>),
                    [SavePickerShown, FileWritten (file_name handle) (JSON_stringify 2 data)])))"

section \<open>The application state controller\<close>

record UserProfile =
  profile_name :: string
  industry :: string

text \<open>
  The state of the component that \<^verbatim>\<open>handleSaveClient\<close> reads and sets, and the
  arguments of the calls of \<^verbatim>\<open>saveData\<close> it has made.
\<close>

record AppState =
  st_clients :: "Client list"
  st_userProfile :: "UserProfile option"
  st_selectedClient :: "Client option"
  st_saveData :: "(Client list \<times> UserProfile option) list"

definition updatedClients :: "Client list \<Rightarrow> Client \<Rightarrow> Client list" where
  "updatedClients cs client =
     (case find (\<lambda>c. client_id c = client_id client) cs of
        Some exists \<Rightarrow> map (\<lambda>c. if client_id c = client_id client then client else c) cs
      | None \<Rightarrow> cs @ [client])"

definition handleSaveClient :: "AppState \<Rightarrow> Client \<Rightarrow> AppState" where
  "handleSaveClient st client =
     (let upd = updatedClients (st_clients st) client
      in st\<lparr> st_clients := upd,
             st_saveData := st_saveData st @ [(upd, st_userProfile st)],
             st_selectedClient := None \<rparr>)"

section \<open>The contact form\<close>

text \<open>
  The form's state: \<^verbatim>\<open>formData\<close> is a partial client, of which \<open>handleAddLog\<close>
  touches the logs and the last contact date (the other members live in the record's
  extension and are carried along by the spread), and the log being entered.
\<close>

record FormData =
  form_logs :: "ContactLog list option"
  form_lastContactDate :: "string option"

record NewLog =
  newLog_type :: "string option"
  newLog_date :: "string option"
  newLog_notes :: "string option"

record 'a ModalState =
  formData :: "'a FormData_scheme"
  newLog :: NewLog
  showLogForm :: bool

text \<open>
  \<^verbatim>\<open>!prev.lastContactDate || new Date(logEntry.date) > new Date(prev.lastContactDate)\<close>.
\<close>

definition supersedes :: "date_api \<Rightarrow> string \<Rightarrow> string option \<Rightarrow> bool" where
  "supersedes D d prev =
     (case prev of None \<Rightarrow> True | Some s \<Rightarrow> s = [] \<or> date_gt D d s)"

text \<open>
  \<open>uuid\<close> is what \<^verbatim>\<open>crypto.randomUUID()\<close> returns, \<open>today\<close> the date part of the
  current time. A log without notes is not added; an invalid date throws.
\<close>

definition handleAddLog :: "date_api \<Rightarrow> string \<Rightarrow> string \<Rightarrow> 'a ModalState \<Rightarrow> js_error + 'a ModalState" where
  "handleAddLog D uuid today st =
     (if \<not> truthyStr (newLog_notes (newLog st)) then Inr st
      else (case (case newLog_date (newLog st) of
                    None \<Rightarrow> Inl RangeError
                  | Some d \<Rightarrow> newDate_toISOString D d) of
              Inl e \<Rightarrow> Inl e
            | Inr isoDate \<Rightarrow>
                (let logEntry = \<lparr> log_id = uuid, log_date = isoDate,
                                  log_type = newLog_type (newLog st),
                                  log_notes = orElse (newLog_notes (newLog st)) [] \<rparr>;
                     updatedLogs = logEntry # (case form_logs (formData st) of None \<Rightarrow> [] | Some ls \<Rightarrow> ls);
                     prev = formData st
                 in Inr (st\<lparr> formData :=
                               prev\<lparr> form_logs := Some updatedLogs,
                                     form_lastContactDate :=
                                       (if supersedes D (log_date logEntry) (form_lastContactDate prev)
                                        then Some (log_date logEntry)
                                        else form_lastContactDate prev) \<rparr>,
                             newLog := \<lparr> newLog_type = Some ''Email'', newLog_date = Some today,
                                          newLog_notes = Some [] \<rparr>,
                             showLogForm := False \<rparr>))))"

section \<open>Texts that survive the CSV format\<close>

text \<open>
  The texts on which export followed by import is the identity: not empty, without
  white space at either end (the import trims every cell), without a line feed (the
  import cuts the file into lines before it reads the quotes), and not made of double
  quotes only.
\<close>

definition csv_text :: "string \<Rightarrow> bool" where
  "csv_text s = (s \<noteq> [] \<and> trim s = s \<and> LF \<notin> set s \<and> (\<exists>c \<in> set s. c \<noteq> dquote))"

definition csv_opt :: "string option \<Rightarrow> bool" where
  "csv_opt v = (case v of None \<Rightarrow> False | Some s \<Rightarrow> csv_text s)"

text \<open>
  A date that is present, the platform prints as such a text, and the platform reads
  back from that text.
\<close>

definition csv_date :: "date_api \<Rightarrow> string option \<Rightarrow> bool" where
  "csv_date D d =
     (case d of
        None \<Rightarrow> False
      | Some s \<Rightarrow> s \<noteq> [] \<and> csv_text (newDate_toLocaleDateString D s) \<and>
                  dateParse D (newDate_toLocaleDateString D s) \<noteq> None)"

definition csv_client :: "date_api \<Rightarrow> Client \<Rightarrow> bool" where
  "csv_client D c =
     (csv_text (name c) \<and> csv_text (company c) \<and> csv_opt (role c) \<and> csv_text (status c) \<and>
      csv_text (sector c) \<and> csv_opt (email c) \<and> csv_opt (phone c) \<and> csv_opt (location c) \<and>
      csv_date D (lastContactDate c) \<and> csv_date D (nextFollowUpDate c) \<and>
      csv_opt (rate c) \<and> csv_opt (client_notes c) \<and>
      tags c \<noteq> [] \<and> (\<forall>t \<in> set (tags c). csv_text t \<and> CHR '','' \<notin> set t))"

text \<open>The import of the exported row of one contact.\<close>

definition reimportRow :: "date_api \<Rightarrow> string \<Rightarrow> Client \<Rightarrow> js_error + Client option" where
  "reimportRow D uuid c =
     parseRow D uuid (parse_headers (join '','' export_headers)) (join '','' (export_row D c))"

section \<open>Sample values\<close>

text \<open>
  The platform's dates on a few texts, as a browser with the locale en-US in the time
  zone UTC gives them, for evaluating the functions at concrete inputs.
\<close>

definition sampleDate :: date_api where
  "sampleDate =
     \<lparr> dateParse = (\<lambda>s. if s = ''2024-03-05T00:00:00.000Z'' \<or> s = ''2024-03-05'' \<or> s = ''3/5/2024''
                          then Some 1709596800000
                        else if s = ''2024-03-07T09:30:00.000Z'' then Some 1709803800000
                        else if s = ''2024-03-07'' \<or> s = ''3/7/2024'' \<or> s = ''2024-03-07T00:00:00.000Z''
                          then Some 1709769600000
                        else None),
       toISOString = (\<lambda>t. if t = 1709596800000 then ''2024-03-05T00:00:00.000Z''
                          else if t = 1709803800000 then ''2024-03-07T09:30:00.000Z''
                          else ''2024-03-07T00:00:00.000Z''),
       toLocaleDateString = (\<lambda>t. if t = 1709596800000 then ''3/5/2024'' else ''3/7/2024'') \<rparr>"

definition sampleUUID :: "nat \<Rightarrow> string" where
  "sampleUUID n = ''uuid-'' @ replicate n (CHR ''0'')"

definition sampleClient :: "string \<Rightarrow> string \<Rightarrow> string \<Rightarrow> Client" where
  "sampleClient cid nm co =
     \<lparr> client_id = cid, name = nm, company = co, role = Some ''Producer'',
       email = Some ''ana@example.com'', phone = Some ''555 0100'', sector = ''Animation'',
       status = ''Active'', statusUpdatedAt = None, location = Some ''Madrid'',
       continent = ''Europe'', lat = None, lng = None, website = None,
       lastContactDate = Some ''2024-03-05T00:00:00.000Z'',
       nextFollowUpDate = Some ''2024-03-07T09:30:00.000Z'',
       rate = Some ''500/day'', client_notes = Some ''Met at the festival'',
       tags = [''Nuke'', ''Pipeline''], logs = [] \<rparr>"

definition sampleState :: AppState where
  "sampleState =
     \<lparr> st_clients = [sampleClient ''id-1'' ''Ana Ruiz'' ''Foo, Inc.'',
                     sampleClient ''id-2'' ''Bo Chen'' ''Bar Ltd''],
       st_userProfile = None, st_selectedClient = None, st_saveData = [] \<rparr>"

definition sampleStorage :: "nat \<Rightarrow> Storage" where
  "sampleStorage q = \<lparr> accessible = True, quota = q, items = [] \<rparr>"

definition sampleStringify :: "nat \<Rightarrow> AppData \<Rightarrow> string" where
  "sampleStringify indent d = ''{}''"

definition sampleParse :: "string \<Rightarrow> js_value option" where
  "sampleParse s =
     (if s = ''null'' then Some Null
      else if s = ''{}'' then Some (Object [])
      else if s = ''{\"clients\":[]}'' then Some (Object [(''clients'', Array [])])
      else None)"

definition sampleModal :: "string \<Rightarrow> string \<Rightarrow> unit ModalState" where
  "sampleModal lcd d =
     \<lparr> formData = \<lparr> form_logs = Some [], form_lastContactDate = Some lcd \<rparr>,
       newLog = \<lparr> newLog_type = Some ''Call'', newLog_date = Some d, newLog_notes = Some ''Rang back'' \<rparr>,
       showLogForm = True \<rparr>"

text \<open>
  The contact of the example of the specification (a name, a company and two tags), as
  \<^verbatim>\<open>handleSubmit\<close> of the contact form saves it: the texts that were not entered
  are empty strings, the dates are \<^verbatim>\<open>undefined\<close>.
\<close>

definition specExample :: Client where
  "specExample =
     \<lparr> client_id = ''id-1'', name = ''Ana Ruiz'', company = ''Foo, Inc.'', role = Some [],
       email = Some [], phone = Some [], sector = ''Other'', status = ''New'',
       statusUpdatedAt = Some ''2024-03-05T00:00:00.000Z'', location = Some [],
       continent = ''North America'', lat = None, lng = None, website = Some [],
       lastContactDate = None, nextFollowUpDate = None, rate = Some [], client_notes = Some [],
       tags = [''Nuke'', ''Pipeline''], logs = [] \<rparr>"

section \<open>Theorems\<close>

subsection \<open>Trimming\<close>

lemma dropWhile_hd_id: "s \<noteq> [] \<Longrightarrow> \<not> P (hd s) \<Longrightarrow> dropWhile P s = s"
  by (cases s) auto

lemma trim_id: "s \<noteq> [] \<Longrightarrow> \<not> isWhiteSpace (hd s) \<Longrightarrow> \<not> isWhiteSpace (last s) \<Longrightarrow> trim s = s"
  by (simp add: trim_def dropWhile_hd_id hd_rev)

lemma trim_fixed_ends:
  assumes "trim s = s" and "s \<noteq> []"
  shows "\<not> isWhiteSpace (hd s) \<and> \<not> isWhiteSpace (last s)"
proof -
  let ?d = "dropWhile isWhiteSpace s"
  from assms have r: "rev (dropWhile isWhiteSpace (rev ?d)) = s"
    by (simp add: trim_def)
  then have "length s \<le> length ?d"
    by (metis length_dropWhile_le length_rev)
  moreover have "length ?d \<le> length s"
    by (rule length_dropWhile_le)
  ultimately have "length ?d = length s" by simp
  then have d: "?d = s"
    by (metis takeWhile_dropWhile_id append_eq_conv_conj append_self_conv2 length_0_conv length_append add_cancel_left_left)
  with assms(2) have h: "\<not> isWhiteSpace (hd s)"
    by (metis hd_dropWhile)
  from r d have "dropWhile isWhiteSpace (rev s) = rev s"
    by (metis rev_rev_ident)
  with assms(2) have "\<not> isWhiteSpace (hd (rev s))"
    by (metis hd_dropWhile rev_is_Nil_conv)
  with assms(2) h show ?thesis by (simp add: hd_rev)
qed

lemma trim_ws_prefix: "\<forall>c \<in> set w. isWhiteSpace c \<Longrightarrow> trim (w @ t) = trim t"
  by (induction w) (simp_all add: trim_def)

subsection \<open>The line splitter\<close>

lemma loop_step:
  "splitCSVLine_loop (c # rest) res cur q =
     (if c = dquote then
        (case rest of
           [] \<Rightarrow> splitCSVLine_loop rest res cur (\<not> q)
         | d # cs \<Rightarrow> if d = dquote then splitCSVLine_loop cs res (cur @ [dquote]) q
                      else splitCSVLine_loop rest res cur (\<not> q))
      else if c = CHR '','' \<and> \<not> q then splitCSVLine_loop rest (res @ [cur]) [] q
      else splitCSVLine_loop rest res (cur @ [c]) q)"
  by (cases rest) simp_all

lemma doubleQuotes_Nil: "doubleQuotes [] = []"
  by (simp add: doubleQuotes_def)

lemma doubleQuotes_Cons:
  "doubleQuotes (x # f) = (if x = dquote then [dquote, dquote] else [x]) @ doubleQuotes f"
  by (simp add: doubleQuotes_def)

lemma loop_inside:
  "r = [] \<or> hd r \<noteq> dquote \<Longrightarrow>
   splitCSVLine_loop (doubleQuotes f @ dquote # r) res cur True = splitCSVLine_loop r res (cur @ f) False"
proof (induction f arbitrary: cur)
  case Nil
  then show ?case
    by (cases r) (simp_all add: doubleQuotes_Nil loop_step)
next
  case (Cons x f)
  show ?case
  proof (cases "x = dquote")
    case True
    then show ?thesis
      using Cons.IH [OF Cons.prems, of "cur @ [dquote]"] by (simp add: doubleQuotes_Cons loop_step)
  next
    case False
    then show ?thesis
      using Cons.IH [OF Cons.prems, of "cur @ [x]"] by (simp add: doubleQuotes_Cons loop_step)
  qed
qed

lemma loop_field:
  "\<exists>c \<in> set f. c \<noteq> dquote \<Longrightarrow> r = [] \<or> hd r \<noteq> dquote \<Longrightarrow>
   splitCSVLine_loop (dquote # doubleQuotes f @ dquote # r) res cur False =
     splitCSVLine_loop r res (cur @ f) False"
proof (induction f arbitrary: cur)
  case Nil
  then show ?case by simp
next
  case (Cons x f)
  show ?case
  proof (cases "x = dquote")
    case True
    with Cons.prems have "\<exists>c \<in> set f. c \<noteq> dquote" by auto
    from Cons.IH [OF this Cons.prems(2), of "cur @ [dquote]"] True show ?thesis
      by (simp add: doubleQuotes_Cons loop_step)
  next
    case False
    have "splitCSVLine_loop (dquote # doubleQuotes (x # f) @ dquote # r) res cur False =
          splitCSVLine_loop (doubleQuotes (x # f) @ dquote # r) res cur True"
      using False by (simp add: doubleQuotes_Cons loop_step)
    then show ?thesis
      using loop_inside [OF Cons.prems(2), of "x # f" res cur] by simp
  qed
qed

lemma esc_Some: "f \<noteq> [] \<Longrightarrow> esc (Some f) = dquote # doubleQuotes f @ [dquote]"
  by (simp add: esc_def truthyStr_def)

lemma loop_fields:
  "fs \<noteq> [] \<Longrightarrow> \<forall>f \<in> set fs. \<exists>c \<in> set f. c \<noteq> dquote \<Longrightarrow>
   splitCSVLine_loop (join '','' (map (\<lambda>f. esc (Some f)) fs)) res [] False = res @ fs"
proof (induction fs arbitrary: res)
  case Nil
  then show ?case by simp
next
  case (Cons f fs)
  from Cons.prems have nq: "\<exists>c \<in> set f. c \<noteq> dquote"
    by simp
  then have "f \<noteq> []"
    by auto
  then have e: "esc (Some f) = dquote # doubleQuotes f @ [dquote]"
    by (rule esc_Some)
  show ?case
  proof (cases fs)
    case Nil
    then show ?thesis
      using loop_field [OF nq, of "[]" res "[]"] by (simp add: e)
  next
    case (Cons g gs)
    have "splitCSVLine_loop (join '','' (map (\<lambda>f. esc (Some f)) (f # fs))) res [] False =
          splitCSVLine_loop (CHR '','' # join '','' (map (\<lambda>f. esc (Some f)) fs)) res f False"
      using loop_field [OF nq, of "CHR '','' # join '','' (map (\<lambda>f. esc (Some f)) fs)" res "[]"] Cons
      by (simp add: e dquote_def)
    also have "\<dots> = splitCSVLine_loop (join '','' (map (\<lambda>f. esc (Some f)) fs)) (res @ [f]) [] False"
      by (simp add: loop_step dquote_def)
    also have "\<dots> = (res @ [f]) @ fs"
      using Cons.IH [of "res @ [f]"] Cons.prems Cons by simp
    finally show ?thesis by simp
  qed
qed

lemma splitCSVLine_esc:
  "fs \<noteq> [] \<Longrightarrow> \<forall>f \<in> set fs. \<exists>c \<in> set f. c \<noteq> dquote \<Longrightarrow>
   splitCSVLine (join '','' (map (\<lambda>f. esc (Some f)) fs)) = fs"
  using loop_fields [of fs "[]"] by (simp add: splitCSVLine_def)


subsection \<open>Lines\<close>

lemma splitLines_line:
  "LF \<notin> set l \<Longrightarrow> l = [] \<or> last l \<noteq> CR \<Longrightarrow>
   splitLines (l @ LF # rest) cur = (cur @ l) # splitLines rest []"
proof (induction l arbitrary: cur)
  case Nil
  then show ?case by (cases rest) (simp_all add: LF_def CR_def)
next
  case (Cons c l)
  show ?case
  proof (cases l)
    case Nil
    with Cons.prems have "c \<noteq> LF" and "c \<noteq> CR"
      by auto
    with Cons.IH [of "cur @ [c]"] Nil show ?thesis by simp
  next
    case (Cons d l')
    with Cons.prems have "LF \<notin> set l" and "l = [] \<or> last l \<noteq> CR" and "c \<noteq> LF" and "d \<noteq> LF"
      by auto
    with Cons.IH [of "cur @ [c]"] Cons show ?thesis by simp
  qed
qed

lemma splitLines_last: "LF \<notin> set l \<Longrightarrow> splitLines l cur = [cur @ l]"
proof (induction l arbitrary: cur)
  case Nil
  then show ?case by simp
next
  case (Cons c l)
  then have "c \<noteq> LF" and "LF \<notin> set l"
    by auto
  with Cons.IH [of "cur @ [c]"] show ?case
    by (cases l) auto
qed

lemma splitLines_join:
  "ls \<noteq> [] \<Longrightarrow> \<forall>l \<in> set ls. LF \<notin> set l \<and> (l = [] \<or> last l \<noteq> CR) \<Longrightarrow>
   splitLines (join [LF] ls) [] = ls"
proof (induction ls)
  case Nil
  then show ?case by simp
next
  case (Cons l ls)
  show ?case
  proof (cases ls)
    case Nil
    with Cons.prems show ?thesis by (simp add: splitLines_last)
  next
    case (Cons m ms)
    with Cons.prems Cons.IH have "splitLines (join [LF] ls) [] = ls"
      by simp
    with Cons Cons.prems show ?thesis
      using splitLines_line [of l "join [LF] ls" "[]"] by simp
  qed
qed

subsection \<open>Tags\<close>

lemma splitComma_piece:
  "CHR '','' \<notin> set t \<Longrightarrow> splitComma (t @ CHR '','' # rest) cur = (cur @ t) # splitComma rest []"
  by (induction t arbitrary: cur) auto

lemma splitComma_last: "CHR '','' \<notin> set t \<Longrightarrow> splitComma t cur = [cur @ t]"
  by (induction t arbitrary: cur) auto

lemma trim_after_space: "t \<noteq> [] \<Longrightarrow> trim t = t \<Longrightarrow> trim (CHR '' '' # t) = t"
  using trim_ws_prefix [of "[CHR '' '']" t] by (simp add: isWhiteSpace_def)

lemma import_tags_join_aux:
  "ts \<noteq> [] \<Longrightarrow> \<forall>t \<in> set ts. t \<noteq> [] \<and> trim t = t \<and> CHR '','' \<notin> set t \<Longrightarrow>
   cur = [] \<or> cur = [CHR '' ''] \<Longrightarrow>
   filter (\<lambda>t. t \<noteq> []) (map trim (splitComma (join '', '' ts) cur)) = ts"
proof (induction ts arbitrary: cur)
  case Nil
  then show ?case by simp
next
  case (Cons t ts)
  have tt: "trim (cur @ t) = t" "t \<noteq> []"
    using Cons.prems trim_after_space [of t] by auto
  show ?case
  proof (cases ts)
    case Nil
    with Cons.prems tt show ?thesis by (simp add: splitComma_last)
  next
    case (Cons u us)
    have "splitComma (join '', '' (t # ts)) cur =
          (cur @ t) # splitComma (CHR '' '' # join '', '' ts) []"
      using splitComma_piece [of t "CHR '' '' # join '', '' ts" cur] Cons.prems Cons by simp
    also have "splitComma (CHR '' '' # join '', '' ts) [] = splitComma (join '', '' ts) [CHR '' '']"
      by simp
    finally show ?thesis
      using Cons.IH [of "[CHR '' '']"] Cons.prems Cons tt by simp
  qed
qed

lemma hd_join: "ts \<noteq> [] \<Longrightarrow> hd ts \<noteq> [] \<Longrightarrow> hd (join sep ts) = hd (hd ts)"
  by (induction sep ts rule: join.induct) simp_all

lemma join_nonempty_last: "ts \<noteq> [] \<Longrightarrow> last ts \<noteq> [] \<Longrightarrow> join sep ts \<noteq> []"
  by (induction sep ts rule: join.induct) simp_all

lemma last_join: "ts \<noteq> [] \<Longrightarrow> last ts \<noteq> [] \<Longrightarrow> last (join sep ts) = last (last ts)"
proof (induction sep ts rule: join.induct)
  case (3 sep x y ys)
  then have "join sep (y # ys) \<noteq> []"
    using join_nonempty_last [of "y # ys" sep] by simp
  with 3 show ?case by simp
qed simp_all

lemma set_join: "set (join sep ts) \<subseteq> set sep \<union> (\<Union>t \<in> set ts. set t)"
  by (induction sep ts rule: join.induct) auto

lemma set_join_piece: "t \<in> set ts \<Longrightarrow> set t \<subseteq> set (join sep ts)"
  by (induction sep ts rule: join.induct) auto

lemma join_nonempty: "ts \<noteq> [] \<Longrightarrow> hd ts \<noteq> [] \<Longrightarrow> join sep ts \<noteq> []"
  by (induction sep ts rule: join.induct) simp_all

lemma csv_text_join_tags:
  assumes "ts \<noteq> []" and "\<forall>t \<in> set ts. csv_text t"
  shows "csv_text (join '', '' ts)"
proof -
  from assms have h: "csv_text (hd ts)" and l: "csv_text (last ts)"
    by simp_all
  then have ne: "hd ts \<noteq> []" "last ts \<noteq> []"
    by (simp_all add: csv_text_def)
  have j: "join '', '' ts \<noteq> []"
    using assms(1) ne(1) by (rule join_nonempty)
  have ends: "\<not> isWhiteSpace (hd (hd ts))" "\<not> isWhiteSpace (last (last ts))"
    using h l trim_fixed_ends [of "hd ts"] trim_fixed_ends [of "last ts"]
    by (simp_all add: csv_text_def)
  have tr: "trim (join '', '' ts) = join '', '' ts"
    using j ends assms(1) ne by (simp add: trim_id hd_join last_join)
  have lf: "LF \<notin> set (join '', '' ts)"
    using set_join [of "'', ''" ts] assms(2) by (auto simp: csv_text_def LF_def)
  from h obtain c where "c \<in> set (hd ts)" and "c \<noteq> dquote"
    by (auto simp: csv_text_def)
  moreover have "set (hd ts) \<subseteq> set (join '', '' ts)"
    using assms(1) by (simp add: set_join_piece)
  ultimately have "\<exists>c \<in> set (join '', '' ts). c \<noteq> dquote"
    by blast
  with j tr lf show ?thesis
    by (simp add: csv_text_def)
qed

subsection \<open>The header row\<close>

lemma std_headers:
  "parse_headers (join '','' export_headers) =
     [''name'', ''company'', ''role'', ''status'', ''sector'', ''email'', ''phone'', ''location'',
      ''last contact'', ''next follow up'', ''rate'', ''notes'', ''tags'']"
  by code_simp

lemma rev_headers:
  "parse_headers (join '','' (rev export_headers)) =
     [''tags'', ''notes'', ''rate'', ''next follow up'', ''last contact'', ''location'', ''phone'',
      ''email'', ''sector'', ''status'', ''role'', ''company'', ''name'']"
  by code_simp

lemma std_index:
  "findIndex (\<lambda>h. str_includes h ''name'') (parse_headers (join '','' export_headers)) = Some 0"
  "findIndex (\<lambda>h. str_includes h ''company'') (parse_headers (join '','' export_headers)) = Some 1"
  "findIndex (\<lambda>h. str_includes h ''role'') (parse_headers (join '','' export_headers)) = Some 2"
  "findIndex (\<lambda>h. str_includes h ''status'') (parse_headers (join '','' export_headers)) = Some 3"
  "findIndex (\<lambda>h. str_includes h ''sector'') (parse_headers (join '','' export_headers)) = Some 4"
  "findIndex (\<lambda>h. str_includes h ''email'') (parse_headers (join '','' export_headers)) = Some 5"
  "findIndex (\<lambda>h. str_includes h ''phone'') (parse_headers (join '','' export_headers)) = Some 6"
  "findIndex (\<lambda>h. str_includes h ''location'') (parse_headers (join '','' export_headers)) = Some 7"
  "findIndex (\<lambda>h. str_includes h ''last contact'') (parse_headers (join '','' export_headers)) = Some 8"
  "findIndex (\<lambda>h. str_includes h ''next follow'') (parse_headers (join '','' export_headers)) = Some 9"
  "findIndex (\<lambda>h. str_includes h ''rate'') (parse_headers (join '','' export_headers)) = Some 10"
  "findIndex (\<lambda>h. str_includes h ''notes'') (parse_headers (join '','' export_headers)) = Some 11"
  "findIndex (\<lambda>h. str_includes h ''tags'') (parse_headers (join '','' export_headers)) = Some 12"
  by (simp_all add: std_headers)

lemma rev_index:
  "findIndex (\<lambda>h. str_includes h ''name'') (parse_headers (join '','' (rev export_headers))) = Some 12"
  "findIndex (\<lambda>h. str_includes h ''company'') (parse_headers (join '','' (rev export_headers))) = Some 11"
  "findIndex (\<lambda>h. str_includes h ''role'') (parse_headers (join '','' (rev export_headers))) = Some 10"
  "findIndex (\<lambda>h. str_includes h ''status'') (parse_headers (join '','' (rev export_headers))) = Some 9"
  "findIndex (\<lambda>h. str_includes h ''sector'') (parse_headers (join '','' (rev export_headers))) = Some 8"
  "findIndex (\<lambda>h. str_includes h ''email'') (parse_headers (join '','' (rev export_headers))) = Some 7"
  "findIndex (\<lambda>h. str_includes h ''phone'') (parse_headers (join '','' (rev export_headers))) = Some 6"
  "findIndex (\<lambda>h. str_includes h ''location'') (parse_headers (join '','' (rev export_headers))) = Some 5"
  "findIndex (\<lambda>h. str_includes h ''last contact'') (parse_headers (join '','' (rev export_headers))) = Some 4"
  "findIndex (\<lambda>h. str_includes h ''next follow'') (parse_headers (join '','' (rev export_headers))) = Some 3"
  "findIndex (\<lambda>h. str_includes h ''rate'') (parse_headers (join '','' (rev export_headers))) = Some 2"
  "findIndex (\<lambda>h. str_includes h ''notes'') (parse_headers (join '','' (rev export_headers))) = Some 1"
  "findIndex (\<lambda>h. str_includes h ''tags'') (parse_headers (join '','' (rev export_headers))) = Some 0"
  by (simp_all add: rev_headers)

subsection \<open>Saving a contact\<close>

lemma find_client_id_None:
  "(find (\<lambda>c. client_id c = k) cs = None) = (\<forall>c \<in> set cs. client_id c \<noteq> k)"
  by (auto simp: find_None_iff)

lemma map_replace_distinct:
  "distinct (map f cs) \<Longrightarrow> i < length cs \<Longrightarrow> f (cs ! i) = k
   \<Longrightarrow> map (\<lambda>c. if f c = k then x else c) cs = cs[i := x]"
proof (induction cs arbitrary: i)
  case Nil
  then show ?case by simp
next
  case (Cons a cs)
  show ?case
  proof (cases i)
    case 0
    with Cons.prems have "f a = k" and "f a \<notin> f ` set cs"
      by auto
    then have "\<forall>c \<in> set cs. f c \<noteq> k"
      by blast
    with \<open>f a = k\<close> have "f a = k" and "\<forall>c \<in> set cs. f c \<noteq> k"
      by auto
    then have "map (\<lambda>c. if f c = k then x else c) cs = cs"
      by (simp add: map_idI)
    with 0 \<open>f a = k\<close> show ?thesis by simp
  next
    case (Suc j)
    with Cons.prems have "f a \<noteq> k" and "j < length cs" and "f (cs ! j) = k" and "distinct (map f cs)"
      by auto
    with Cons.IH [of j] Suc show ?thesis by simp
  qed
qed

text \<open>
  Claim C10. Saving a contact \<open>x\<close> replaces by id: when an element of the list has the
  id of \<open>x\<close>, the list keeps its length and order, every element with that id becomes
  \<open>x\<close> and every other element is unchanged (with the ids of the list distinct, that
  is the list with the one position of the id set to \<open>x\<close>); when no element has the
  id, \<open>x\<close> is appended and the existing contacts are unchanged.
\<close>

theorem handleSaveClient_replace_by_id:
  "((\<exists>c \<in> set (st_clients st). client_id c = client_id x) \<longrightarrow>
      length (st_clients (handleSaveClient st x)) = length (st_clients st) \<and>
      (\<forall>i < length (st_clients st).
         st_clients (handleSaveClient st x) ! i =
           (if client_id (st_clients st ! i) = client_id x then x else st_clients st ! i)) \<and>
      (\<forall>i < length (st_clients st).
         distinct (map client_id (st_clients st)) \<longrightarrow> client_id (st_clients st ! i) = client_id x \<longrightarrow>
         st_clients (handleSaveClient st x) = (st_clients st)[i := x])) \<and>
   ((\<forall>c \<in> set (st_clients st). client_id c \<noteq> client_id x) \<longrightarrow>
      st_clients (handleSaveClient st x) = st_clients st @ [x])"
proof -
  let ?cs = "st_clients st"
  have r: "st_clients (handleSaveClient st x) = updatedClients ?cs x"
    by (simp add: handleSaveClient_def Let_def)
  have absent: "(\<forall>c \<in> set ?cs. client_id c \<noteq> client_id x) \<Longrightarrow> updatedClients ?cs x = ?cs @ [x]"
    using find_client_id_None [of "client_id x" ?cs] by (simp add: updatedClients_def)
  have present: "(\<exists>c \<in> set ?cs. client_id c = client_id x)
      \<Longrightarrow> updatedClients ?cs x = map (\<lambda>c. if client_id c = client_id x then x else c) ?cs"
  proof -
    assume "\<exists>c \<in> set ?cs. client_id c = client_id x"
    then have "find (\<lambda>c. client_id c = client_id x) ?cs \<noteq> None"
      using find_client_id_None [of "client_id x" ?cs] by blast
    then show ?thesis
      by (auto simp: updatedClients_def split: option.splits)
  qed
  show ?thesis
    using absent present map_replace_distinct [of client_id ?cs _ "client_id x" x]
    by (auto simp: r)
qed

theorem handleSaveClient_replace_by_id_witness:
  "st_clients (handleSaveClient sampleState (sampleClient ''id-2'' ''Bo Chen'' ''Baz GmbH'')) =
     [sampleClient ''id-1'' ''Ana Ruiz'' ''Foo, Inc.'', sampleClient ''id-2'' ''Bo Chen'' ''Baz GmbH''] \<and>
   st_clients (handleSaveClient sampleState (sampleClient ''id-3'' ''Cy Diaz'' ''Qux'')) =
     [sampleClient ''id-1'' ''Ana Ruiz'' ''Foo, Inc.'', sampleClient ''id-2'' ''Bo Chen'' ''Bar Ltd'',
      sampleClient ''id-3'' ''Cy Diaz'' ''Qux'']"
  using handleSaveClient_replace_by_id [of sampleState "sampleClient ''id-2'' ''Bo Chen'' ''Baz GmbH''"]
    handleSaveClient_replace_by_id [of sampleState "sampleClient ''id-3'' ''Cy Diaz'' ''Qux''"]
  by (simp add: sampleState_def sampleClient_def handleSaveClient_def updatedClients_def Let_def)

subsection \<open>Validation\<close>

lemma validateData_total: "\<exists>d. validateData now raw = Inr d"
  by (cases raw) (auto simp: validateData_def split: sum.splits js_value.splits option.splits)

text \<open>
  Claim C2, as amended. \<open>validateData\<close> never throws. For a value that is not an
  object (absent, a primitive, an array), and for an object whose \<^verbatim>\<open>clients\<close> is
  not an array, it returns the empty document stamped with the current time. For an
  object whose \<^verbatim>\<open>clients\<close> is an array it returns that array unchanged, the
  object's \<^verbatim>\<open>profile\<close> when that is truthy and \<^verbatim>\<open>null\<close> otherwise, and the
  object's \<^verbatim>\<open>lastUpdated\<close> when that is truthy and the current time otherwise. In
  particular \<^verbatim>\<open>null\<close>, \<^verbatim>\<open>{}\<close> and \<^verbatim>\<open>{clients: "not-a-list"}\<close> give the empty
  document.
\<close>

theorem validateData_repairs:
  "(\<exists>d. validateData now raw = Inr d) \<and>
   ((\<forall>kvs. raw \<noteq> Object kvs) \<longrightarrow>
      validateData now raw = Inr \<lparr> clients = [], profile = Null, lastUpdated = String now \<rparr>) \<and>
   (\<forall>kvs. raw = Object kvs \<and> (\<forall>xs. map_of kvs ''clients'' \<noteq> Some (Array xs)) \<longrightarrow>
      validateData now raw = Inr \<lparr> clients = [], profile = Null, lastUpdated = String now \<rparr>) \<and>
   (\<forall>kvs xs. raw = Object kvs \<and> map_of kvs ''clients'' = Some (Array xs) \<longrightarrow>
      validateData now raw =
        Inr \<lparr> clients = xs,
              profile = (case map_of kvs ''profile'' of
                           None \<Rightarrow> Null | Some p \<Rightarrow> if truthy p then p else Null),
              lastUpdated = (case map_of kvs ''lastUpdated'' of
                               None \<Rightarrow> String now | Some u \<Rightarrow> if truthy u then u else String now) \<rparr>) \<and>
   validateData now Null = Inr \<lparr> clients = [], profile = Null, lastUpdated = String now \<rparr> \<and>
   validateData now (Object []) = Inr \<lparr> clients = [], profile = Null, lastUpdated = String now \<rparr> \<and>
   validateData now (Object [(''clients'', String ''not-a-list'')]) =
     Inr \<lparr> clients = [], profile = Null, lastUpdated = String now \<rparr>"
  by (cases raw) (auto simp: validateData_def split: sum.splits js_value.splits option.splits)

theorem validateData_repairs_witness:
  "validateData ''2024-03-05T00:00:00.000Z'' (String ''abc'') =
     Inr \<lparr> clients = [], profile = Null, lastUpdated = String ''2024-03-05T00:00:00.000Z'' \<rparr> \<and>
   validateData ''2024-03-05T00:00:00.000Z''
       (Object [(''clients'', Array [Null]), (''profile'', Object [(''name'', String ''Ana'')])]) =
     Inr \<lparr> clients = [Null], profile = Object [(''name'', String ''Ana'')],
           lastUpdated = String ''2024-03-05T00:00:00.000Z'' \<rparr>"
  using validateData_repairs [of "''2024-03-05T00:00:00.000Z''" "String ''abc''"]
    validateData_repairs [of "''2024-03-05T00:00:00.000Z''"
      "Object [(''clients'', Array [Null]), (''profile'', Object [(''name'', String ''Ana'')])]"]
  by simp

text \<open>
  Claim C2 as stated fails: a \<^verbatim>\<open>profile\<close> that is a string is present and not
  object-like, and is passed through instead of replaced by \<^verbatim>\<open>null\<close>; a
  \<^verbatim>\<open>lastUpdated\<close> that is the number 0 is present, and is replaced by the current time.
\<close>

theorem validateData_profile_counterexample:
  "validateData ''2024-03-05T00:00:00.000Z''
       (Object [(''clients'', Array []), (''profile'', String ''x'')]) =
     Inr \<lparr> clients = [], profile = String ''x'', lastUpdated = String ''2024-03-05T00:00:00.000Z'' \<rparr> \<and>
   validateData ''2024-03-05T00:00:00.000Z''
       (Object [(''clients'', Array []), (''lastUpdated'', Number (Finite 0))]) =
     Inr \<lparr> clients = [], profile = Null, lastUpdated = String ''2024-03-05T00:00:00.000Z'' \<rparr>"
  by (simp add: validateData_def)

subsection \<open>Local storage\<close>

text \<open>
  Claim C5. \<open>loadFromLocalStorage\<close> returns \<^verbatim>\<open>null\<close> when the slot is absent, and
  \<^verbatim>\<open>null\<close> when the stored text does not parse as JSON; when it parses, the result
  is the parsed value passed through \<open>validateData\<close>. An empty stored text (which no
  JSON parser accepts) and a storage that throws on access give \<^verbatim>\<open>null\<close> as well.
  The function has no exceptional result.
\<close>

theorem loadFromLocalStorage_none_or_validated:
  "(getItem st LOCAL_STORAGE_KEY = Inr None \<longrightarrow> loadFromLocalStorage JSON_parse now st = None) \<and>
   (\<forall>s. getItem st LOCAL_STORAGE_KEY = Inr (Some s) \<and> JSON_parse s = None \<longrightarrow>
      loadFromLocalStorage JSON_parse now st = None) \<and>
   (\<forall>s json. getItem st LOCAL_STORAGE_KEY = Inr (Some s) \<and> s \<noteq> [] \<and> JSON_parse s = Some json \<longrightarrow>
      (\<exists>data. validateData now json = Inr data \<and>
         loadFromLocalStorage JSON_parse now st = Some data)) \<and>
   (getItem st LOCAL_STORAGE_KEY = Inr (Some []) \<longrightarrow> loadFromLocalStorage JSON_parse now st = None) \<and>
   (\<forall>e. getItem st LOCAL_STORAGE_KEY = Inl e \<longrightarrow> loadFromLocalStorage JSON_parse now st = None)"
  using validateData_total
  by (fastforce simp: loadFromLocalStorage_def split: sum.splits option.splits)

theorem loadFromLocalStorage_none_or_validated_witness:
  "loadFromLocalStorage sampleParse ''2024-03-05T00:00:00.000Z'' (sampleStorage 100) = None \<and>
   loadFromLocalStorage sampleParse ''2024-03-05T00:00:00.000Z''
       ((sampleStorage 100)\<lparr> items := [(LOCAL_STORAGE_KEY, ''{\"clients\":'')] \<rparr>) = None \<and>
   loadFromLocalStorage sampleParse ''2024-03-05T00:00:00.000Z''
       ((sampleStorage 100)\<lparr> items := [(LOCAL_STORAGE_KEY, ''{\"clients\":[]}'')] \<rparr>) =
     Some \<lparr> clients = [], profile = Null, lastUpdated = String ''2024-03-05T00:00:00.000Z'' \<rparr>"
  using loadFromLocalStorage_none_or_validated [of "sampleStorage 100" sampleParse "''2024-03-05T00:00:00.000Z''"]
    loadFromLocalStorage_none_or_validated
      [of "(sampleStorage 100)\<lparr> items := [(LOCAL_STORAGE_KEY, ''{\"clients\":'')] \<rparr>" sampleParse
          "''2024-03-05T00:00:00.000Z''"]
    loadFromLocalStorage_none_or_validated
      [of "(sampleStorage 100)\<lparr> items := [(LOCAL_STORAGE_KEY, ''{\"clients\":[]}'')] \<rparr>" sampleParse
          "''2024-03-05T00:00:00.000Z''"]
  by (simp add: getItem_def sampleStorage_def sampleParse_def validateData_def)

text \<open>
  Claim C4, as amended. \<open>saveToLocalStorage\<close> always returns normally to its caller.
  When the storage rejects the write, the storage is left as it was, the error is
  written to the console and the user is shown a warning.
\<close>

theorem saveToLocalStorage_swallows_rejection:
  "fst (saveToLocalStorage JSON_stringify st data) = Inr () \<and>
   (\<forall>e. setItem st LOCAL_STORAGE_KEY (JSON_stringify 0 data) = Inl e \<longrightarrow>
      saveToLocalStorage JSON_stringify st data =
        (Inr (), st,
         [ConsoleError ''Failed to save to local storage (quota exceeded?)'' e,
          Alert ''Warning: Local storage full. Some data may not be saved.'']))"
  by (simp add: saveToLocalStorage_def split: sum.splits)

theorem saveToLocalStorage_swallows_rejection_witness:
  "setItem (sampleStorage 5) LOCAL_STORAGE_KEY
       (sampleStringify 0 \<lparr> clients = [], profile = Null, lastUpdated = String ''2024-03-05T00:00:00.000Z'' \<rparr>) =
     Inl (DOMException ''QuotaExceededError'') \<and>
   saveToLocalStorage sampleStringify (sampleStorage 5)
       \<lparr> clients = [], profile = Null, lastUpdated = String ''2024-03-05T00:00:00.000Z'' \<rparr> =
     (Inr (), sampleStorage 5,
      [ConsoleError ''Failed to save to local storage (quota exceeded?)'' (DOMException ''QuotaExceededError''),
       Alert ''Warning: Local storage full. Some data may not be saved.''])"
  using saveToLocalStorage_swallows_rejection [of sampleStringify "sampleStorage 5"
      "\<lparr> clients = [], profile = Null, lastUpdated = String ''2024-03-05T00:00:00.000Z'' \<rparr>"]
  by (simp add: setItem_def sampleStorage_def sampleStringify_def storedSize_def LOCAL_STORAGE_KEY_def)

text \<open>
  Claim C4 as stated fails: with a storage of capacity 5 the write is rejected with a
  \<^verbatim>\<open>QuotaExceededError\<close>, and the caller gets a normal return, not the error.
\<close>

theorem saveToLocalStorage_counterexample:
  "setItem (sampleStorage 5) LOCAL_STORAGE_KEY
       (sampleStringify 0 \<lparr> clients = [], profile = Null, lastUpdated = String ''2024-03-05T00:00:00.000Z'' \<rparr>) =
     Inl (DOMException ''QuotaExceededError'') \<and>
   fst (saveToLocalStorage sampleStringify (sampleStorage 5)
       \<lparr> clients = [], profile = Null, lastUpdated = String ''2024-03-05T00:00:00.000Z'' \<rparr>) = Inr () \<and>
   fst (saveToLocalStorage sampleStringify (sampleStorage 5)
       \<lparr> clients = [], profile = Null, lastUpdated = String ''2024-03-05T00:00:00.000Z'' \<rparr>)
     \<noteq> Inl (DOMException ''QuotaExceededError'')"
  by (simp add: saveToLocalStorage_def setItem_def sampleStorage_def sampleStringify_def storedSize_def
      LOCAL_STORAGE_KEY_def)

subsection \<open>Files\<close>

text \<open>
  Claim C9. On a platform without the file pickers, \<open>openDatabaseFile\<close> and
  \<open>createDatabaseFile\<close> fail with the error \<^verbatim>\<open>NOT_SUPPORTED\<close> and no event: no
  picker is shown, no file is read or written.
\<close>

theorem pickers_unsupported:
  "(showOpenFilePicker w = None \<longrightarrow>
      openDatabaseFile JSON_parse now w = (Inl (Error ''NOT_SUPPORTED''), [])) \<and>
   (showSaveFilePicker w = None \<longrightarrow>
      createDatabaseFile JSON_stringify INITIAL_CLIENTS now w = (Inl (Error ''NOT_SUPPORTED''), []))"
  by (simp add: openDatabaseFile_def createDatabaseFile_def)

theorem pickers_unsupported_witness:
  "openDatabaseFile sampleParse ''2024-03-05T00:00:00.000Z''
       \<lparr> showOpenFilePicker = None, showSaveFilePicker = None \<rparr> = (Inl (Error ''NOT_SUPPORTED''), []) \<and>
   createDatabaseFile sampleStringify [] ''2024-03-05T00:00:00.000Z''
       \<lparr> showOpenFilePicker = None, showSaveFilePicker = None \<rparr> = (Inl (Error ''NOT_SUPPORTED''), [])"
  using pickers_unsupported [of "\<lparr> showOpenFilePicker = None, showSaveFilePicker = None \<rparr>"
      sampleParse "''2024-03-05T00:00:00.000Z''" sampleStringify "[]"]
  by simp

subsection \<open>Adding a log\<close>

text \<open>
  Claim C6. When \<open>handleAddLog\<close> adds a log \<open>e\<close> (the notes are not empty and the
  date is valid), \<open>e\<close> is put in front of the logs, and the last contact date becomes
  the date of \<open>e\<close> when it was absent (or empty) or when the date of \<open>e\<close> is later;
  it is unchanged when the date of \<open>e\<close> is earlier or the same. So a valid last
  contact date never moves back.
\<close>

theorem handleAddLog_lastContactDate:
  assumes "handleAddLog D uuid today st = Inr st'"
    and "truthyStr (newLog_notes (newLog st))"
  shows "\<exists>e. form_logs (formData st') =
             Some (e # (case form_logs (formData st) of None \<Rightarrow> [] | Some ls \<Rightarrow> ls)) \<and>
           (form_lastContactDate (formData st) = None \<or> form_lastContactDate (formData st) = Some [] \<longrightarrow>
              form_lastContactDate (formData st') = Some (log_date e)) \<and>
           (\<forall>s t0 t1. form_lastContactDate (formData st) = Some s \<and> dateParse D s = Some t0 \<and>
                       dateParse D (log_date e) = Some t1 \<and> t0 < t1 \<longrightarrow>
              form_lastContactDate (formData st') = Some (log_date e)) \<and>
           (\<forall>s t0 t1. form_lastContactDate (formData st) = Some s \<and> s \<noteq> [] \<and> dateParse D s = Some t0 \<and>
                       dateParse D (log_date e) = Some t1 \<and> t1 \<le> t0 \<longrightarrow>
              form_lastContactDate (formData st') = Some s) \<and>
           (\<forall>s t0. form_lastContactDate (formData st) = Some s \<and> s \<noteq> [] \<and> dateParse D s = Some t0 \<longrightarrow>
              (\<exists>s' t1. form_lastContactDate (formData st') = Some s' \<and> dateParse D s' = Some t1 \<and>
                        t0 \<le> t1))"
  using assms
  by (auto simp: handleAddLog_def Let_def supersedes_def date_gt_def
      split: sum.splits option.splits if_splits)

theorem handleAddLog_lastContactDate_witness:
  "truthyStr (newLog_notes (newLog (sampleModal ''2024-03-05T00:00:00.000Z'' ''2024-03-07''))) \<and>
   handleAddLog sampleDate ''uuid-9'' ''2024-03-08'' (sampleModal ''2024-03-05T00:00:00.000Z'' ''2024-03-07'') =
     Inr \<lparr> formData =
             \<lparr> form_logs = Some [\<lparr> log_id = ''uuid-9'', log_date = ''2024-03-07T00:00:00.000Z'',
                                    log_type = Some ''Call'', log_notes = ''Rang back'' \<rparr>],
               form_lastContactDate = Some ''2024-03-07T00:00:00.000Z'' \<rparr>,
           newLog = \<lparr> newLog_type = Some ''Email'', newLog_date = Some ''2024-03-08'',
                      newLog_notes = Some [] \<rparr>,
           showLogForm = False \<rparr> \<and>
   handleAddLog sampleDate ''uuid-9'' ''2024-03-08'' (sampleModal ''2024-03-07T09:30:00.000Z'' ''2024-03-05'') =
     Inr \<lparr> formData =
             \<lparr> form_logs = Some [\<lparr> log_id = ''uuid-9'', log_date = ''2024-03-05T00:00:00.000Z'',
                                    log_type = Some ''Call'', log_notes = ''Rang back'' \<rparr>],
               form_lastContactDate = Some ''2024-03-07T09:30:00.000Z'' \<rparr>,
           newLog = \<lparr> newLog_type = Some ''Email'', newLog_date = Some ''2024-03-08'',
                      newLog_notes = Some [] \<rparr>,
           showLogForm = False \<rparr>"
proof -
  let ?later = "sampleModal ''2024-03-05T00:00:00.000Z'' ''2024-03-07''"
  let ?earlier = "sampleModal ''2024-03-07T09:30:00.000Z'' ''2024-03-05''"
  have nts: "truthyStr (newLog_notes (newLog ?later))" "truthyStr (newLog_notes (newLog ?earlier))"
    by (simp_all add: sampleModal_def truthyStr_def)
  have a: "handleAddLog sampleDate ''uuid-9'' ''2024-03-08'' ?later =
      Inr \<lparr> formData =
             \<lparr> form_logs = Some [\<lparr> log_id = ''uuid-9'', log_date = ''2024-03-07T00:00:00.000Z'',
                                    log_type = Some ''Call'', log_notes = ''Rang back'' \<rparr>],
               form_lastContactDate = Some ''2024-03-07T00:00:00.000Z'' \<rparr>,
           newLog = \<lparr> newLog_type = Some ''Email'', newLog_date = Some ''2024-03-08'',
                      newLog_notes = Some [] \<rparr>,
           showLogForm = False \<rparr>"
    by (simp add: handleAddLog_def sampleModal_def sampleDate_def truthyStr_def newDate_toISOString_def
        orElse_def supersedes_def date_gt_def Let_def)
  have b: "handleAddLog sampleDate ''uuid-9'' ''2024-03-08'' ?earlier =
      Inr \<lparr> formData =
             \<lparr> form_logs = Some [\<lparr> log_id = ''uuid-9'', log_date = ''2024-03-05T00:00:00.000Z'',
                                    log_type = Some ''Call'', log_notes = ''Rang back'' \<rparr>],
               form_lastContactDate = Some ''2024-03-07T09:30:00.000Z'' \<rparr>,
           newLog = \<lparr> newLog_type = Some ''Email'', newLog_date = Some ''2024-03-08'',
                      newLog_notes = Some [] \<rparr>,
           showLogForm = False \<rparr>"
    by (simp add: handleAddLog_def sampleModal_def sampleDate_def truthyStr_def newDate_toISOString_def
        orElse_def supersedes_def date_gt_def Let_def)
  note handleAddLog_lastContactDate [OF a nts(1)] handleAddLog_lastContactDate [OF b nts(2)]
  then show ?thesis
    using nts a b by simp
qed

subsection \<open>Rows\<close>

lemma val_std:
  assumes "length vs = 13"
  shows "val (parse_headers (join '','' export_headers)) vs ''name'' = Some (trim (vs ! 0))"
    and "val (parse_headers (join '','' export_headers)) vs ''company'' = Some (trim (vs ! 1))"
    and "val (parse_headers (join '','' export_headers)) vs ''role'' = Some (trim (vs ! 2))"
    and "val (parse_headers (join '','' export_headers)) vs ''status'' = Some (trim (vs ! 3))"
    and "val (parse_headers (join '','' export_headers)) vs ''sector'' = Some (trim (vs ! 4))"
    and "val (parse_headers (join '','' export_headers)) vs ''email'' = Some (trim (vs ! 5))"
    and "val (parse_headers (join '','' export_headers)) vs ''phone'' = Some (trim (vs ! 6))"
    and "val (parse_headers (join '','' export_headers)) vs ''location'' = Some (trim (vs ! 7))"
    and "val (parse_headers (join '','' export_headers)) vs ''last contact'' = Some (trim (vs ! 8))"
    and "val (parse_headers (join '','' export_headers)) vs ''next follow'' = Some (trim (vs ! 9))"
    and "val (parse_headers (join '','' export_headers)) vs ''rate'' = Some (trim (vs ! 10))"
    and "val (parse_headers (join '','' export_headers)) vs ''notes'' = Some (trim (vs ! 11))"
    and "val (parse_headers (join '','' export_headers)) vs ''tags'' = Some (trim (vs ! 12))"
  using assms by (simp_all add: val_def std_index)

lemma val_rev:
  assumes "length vs = 13"
  shows "val (parse_headers (join '','' (rev export_headers))) (rev vs) ''name'' = Some (trim (vs ! 0))"
    and "val (parse_headers (join '','' (rev export_headers))) (rev vs) ''company'' = Some (trim (vs ! 1))"
    and "val (parse_headers (join '','' (rev export_headers))) (rev vs) ''role'' = Some (trim (vs ! 2))"
    and "val (parse_headers (join '','' (rev export_headers))) (rev vs) ''status'' = Some (trim (vs ! 3))"
    and "val (parse_headers (join '','' (rev export_headers))) (rev vs) ''sector'' = Some (trim (vs ! 4))"
    and "val (parse_headers (join '','' (rev export_headers))) (rev vs) ''email'' = Some (trim (vs ! 5))"
    and "val (parse_headers (join '','' (rev export_headers))) (rev vs) ''phone'' = Some (trim (vs ! 6))"
    and "val (parse_headers (join '','' (rev export_headers))) (rev vs) ''location'' = Some (trim (vs ! 7))"
    and "val (parse_headers (join '','' (rev export_headers))) (rev vs) ''last contact'' = Some (trim (vs ! 8))"
    and "val (parse_headers (join '','' (rev export_headers))) (rev vs) ''next follow'' = Some (trim (vs ! 9))"
    and "val (parse_headers (join '','' (rev export_headers))) (rev vs) ''rate'' = Some (trim (vs ! 10))"
    and "val (parse_headers (join '','' (rev export_headers))) (rev vs) ''notes'' = Some (trim (vs ! 11))"
    and "val (parse_headers (join '','' (rev export_headers))) (rev vs) ''tags'' = Some (trim (vs ! 12))"
  using assms by (simp_all add: val_def rev_index rev_nth)

lemma val_reversed:
  assumes "length vs = 13"
  shows "val (parse_headers (join '','' (rev export_headers))) (rev vs) ''name'' =
           val (parse_headers (join '','' export_headers)) vs ''name''"
    and "val (parse_headers (join '','' (rev export_headers))) (rev vs) ''company'' =
           val (parse_headers (join '','' export_headers)) vs ''company''"
    and "val (parse_headers (join '','' (rev export_headers))) (rev vs) ''role'' =
           val (parse_headers (join '','' export_headers)) vs ''role''"
    and "val (parse_headers (join '','' (rev export_headers))) (rev vs) ''status'' =
           val (parse_headers (join '','' export_headers)) vs ''status''"
    and "val (parse_headers (join '','' (rev export_headers))) (rev vs) ''sector'' =
           val (parse_headers (join '','' export_headers)) vs ''sector''"
    and "val (parse_headers (join '','' (rev export_headers))) (rev vs) ''email'' =
           val (parse_headers (join '','' export_headers)) vs ''email''"
    and "val (parse_headers (join '','' (rev export_headers))) (rev vs) ''phone'' =
           val (parse_headers (join '','' export_headers)) vs ''phone''"
    and "val (parse_headers (join '','' (rev export_headers))) (rev vs) ''location'' =
           val (parse_headers (join '','' export_headers)) vs ''location''"
    and "val (parse_headers (join '','' (rev export_headers))) (rev vs) ''last contact'' =
           val (parse_headers (join '','' export_headers)) vs ''last contact''"
    and "val (parse_headers (join '','' (rev export_headers))) (rev vs) ''next follow'' =
           val (parse_headers (join '','' export_headers)) vs ''next follow''"
    and "val (parse_headers (join '','' (rev export_headers))) (rev vs) ''rate'' =
           val (parse_headers (join '','' export_headers)) vs ''rate''"
    and "val (parse_headers (join '','' (rev export_headers))) (rev vs) ''notes'' =
           val (parse_headers (join '','' export_headers)) vs ''notes''"
    and "val (parse_headers (join '','' (rev export_headers))) (rev vs) ''tags'' =
           val (parse_headers (join '','' export_headers)) vs ''tags''"
  using assms by (simp_all add: val_std val_rev)

lemma rowClient_reversed:
  assumes "length vs = 13"
  shows "rowClient D u (parse_headers (join '','' (rev export_headers))) (rev vs) =
         rowClient D u (parse_headers (join '','' export_headers)) vs"
  unfolding rowClient_def newClient_def val_reversed [OF assms] by (rule refl)

lemma parseRow_reversed:
  assumes "length (splitCSVLine (trim l)) = 13" and "splitCSVLine (trim l') = rev (splitCSVLine (trim l))"
  shows "parseRow D u (parse_headers (join '','' (rev export_headers))) l' =
         parseRow D u (parse_headers (join '','' export_headers)) l"
proof -
  have len: "length (splitCSVLine (trim l')) = 13"
    using assms by simp
  have "splitCSVLine [] = [[]]"
    by (simp add: splitCSVLine_def)
  with assms(1) len have "trim l \<noteq> []" "trim l' \<noteq> []"
    by auto
  then show ?thesis
    using assms rowClient_reversed [OF assms(1), of D u]
    by (simp add: parseRow_def Let_def)
qed

lemma parseCSV_loop_reversed:
  "list_all2 (\<lambda>l' l. length (splitCSVLine (trim l)) = 13 \<and>
                      splitCSVLine (trim l') = rev (splitCSVLine (trim l))) ls' ls \<Longrightarrow>
   parseCSV_loop D uuid n (parse_headers (join '','' (rev export_headers))) ls' =
   parseCSV_loop D uuid n (parse_headers (join '','' export_headers)) ls"
proof (induction ls' ls arbitrary: n rule: list_all2_induct)
  case Nil
  then show ?case by simp
next
  case (Cons l' ls' l ls)
  then have "parseRow D (uuid n) (parse_headers (join '','' (rev export_headers))) l' =
             parseRow D (uuid n) (parse_headers (join '','' export_headers)) l"
    using parseRow_reversed [of l l' D "uuid n"] by simp
  with Cons.IH show ?case
    by (simp split: sum.splits option.splits)
qed


subsection \<open>Reversed columns\<close>

text \<open>
  Claim C8. Under the header row with the thirteen export column names in reversed
  order, every keyword resolves to the column of its own name: for a row of thirteen
  cells given in reversed order, each keyword reads the cell it reads from the row in
  standard order under the standard header, and the contact made of the row is the
  same. Hence the import under the reversed header of lines whose cells are those of
  the standard lines in reversed order gives the same result.
\<close>

theorem reversed_header_same_fields:
  "(\<forall>vs. length vs = 13 \<longrightarrow>
      val (parse_headers (join '','' (rev export_headers))) (rev vs) ''name'' = Some (trim (vs ! 0)) \<and>
      val (parse_headers (join '','' (rev export_headers))) (rev vs) ''company'' = Some (trim (vs ! 1)) \<and>
      val (parse_headers (join '','' (rev export_headers))) (rev vs) ''role'' = Some (trim (vs ! 2)) \<and>
      val (parse_headers (join '','' (rev export_headers))) (rev vs) ''status'' = Some (trim (vs ! 3)) \<and>
      val (parse_headers (join '','' (rev export_headers))) (rev vs) ''sector'' = Some (trim (vs ! 4)) \<and>
      val (parse_headers (join '','' (rev export_headers))) (rev vs) ''email'' = Some (trim (vs ! 5)) \<and>
      val (parse_headers (join '','' (rev export_headers))) (rev vs) ''phone'' = Some (trim (vs ! 6)) \<and>
      val (parse_headers (join '','' (rev export_headers))) (rev vs) ''location'' = Some (trim (vs ! 7)) \<and>
      val (parse_headers (join '','' (rev export_headers))) (rev vs) ''last contact'' = Some (trim (vs ! 8)) \<and>
      val (parse_headers (join '','' (rev export_headers))) (rev vs) ''next follow'' = Some (trim (vs ! 9)) \<and>
      val (parse_headers (join '','' (rev export_headers))) (rev vs) ''rate'' = Some (trim (vs ! 10)) \<and>
      val (parse_headers (join '','' (rev export_headers))) (rev vs) ''notes'' = Some (trim (vs ! 11)) \<and>
      val (parse_headers (join '','' (rev export_headers))) (rev vs) ''tags'' = Some (trim (vs ! 12)) \<and>
      (\<forall>k \<in> set [''name'', ''company'', ''role'', ''status'', ''sector'', ''email'', ''phone'',
                   ''location'', ''last contact'', ''next follow'', ''rate'', ''notes'', ''tags''].
         val (parse_headers (join '','' (rev export_headers))) (rev vs) k =
         val (parse_headers (join '','' export_headers)) vs k) \<and>
      rowClient D u (parse_headers (join '','' (rev export_headers))) (rev vs) =
      rowClient D u (parse_headers (join '','' export_headers)) vs) \<and>
   (\<forall>ls' ls.
      list_all2 (\<lambda>l' l. length (splitCSVLine (trim l)) = 13 \<and>
                          splitCSVLine (trim l') = rev (splitCSVLine (trim l))) ls' ls \<longrightarrow>
      parseCSV_loop D randomUUID n (parse_headers (join '','' (rev export_headers))) ls' =
      parseCSV_loop D randomUUID n (parse_headers (join '','' export_headers)) ls)"
proof (intro conjI allI impI)
  fix vs :: "string list"
  assume len: "length vs = 13"
  show "\<forall>k \<in> set [''name'', ''company'', ''role'', ''status'', ''sector'', ''email'', ''phone'',
                   ''location'', ''last contact'', ''next follow'', ''rate'', ''notes'', ''tags''].
         val (parse_headers (join '','' (rev export_headers))) (rev vs) k =
         val (parse_headers (join '','' export_headers)) vs k"
    using val_reversed [OF len] by simp
qed (simp_all add: val_rev rowClient_reversed parseCSV_loop_reversed)

theorem reversed_header_same_fields_witness:
  "rowClient sampleDate ''uuid-1'' (parse_headers (join '','' (rev export_headers)))
       [''Nuke, Pipeline'', ''Met at the festival'', ''500/day'', ''3/7/2024'', ''3/5/2024'', ''Madrid'',
        ''555 0100'', ''ana@example.com'', ''Animation'', ''Active'', ''Producer'', ''Foo, Inc.'',
        ''Ana Ruiz''] =
     Inr (Some \<lparr> client_id = ''uuid-1'', name = ''Ana Ruiz'', company = ''Foo, Inc.'',
                 role = Some ''Producer'', email = Some ''ana@example.com'', phone = Some ''555 0100'',
                 sector = ''Animation'', status = ''Active'', statusUpdatedAt = None,
                 location = Some ''Madrid'', continent = ''North America'', lat = None, lng = None,
                 website = None, lastContactDate = Some ''2024-03-05T00:00:00.000Z'',
                 nextFollowUpDate = Some ''2024-03-07T00:00:00.000Z'', rate = Some ''500/day'',
                 client_notes = Some ''Met at the festival'', tags = [''Nuke'', ''Pipeline''],
                 logs = [] \<rparr>)"
proof -
  let ?vs = "[''Ana Ruiz'', ''Foo, Inc.'', ''Producer'', ''Active'', ''Animation'', ''ana@example.com'',
              ''555 0100'', ''Madrid'', ''3/5/2024'', ''3/7/2024'', ''500/day'',
              ''Met at the festival'', ''Nuke, Pipeline'']"
  have len: "length ?vs = 13"
    by simp
  have std: "rowClient sampleDate ''uuid-1'' (parse_headers (join '','' export_headers)) ?vs =
     Inr (Some \<lparr> client_id = ''uuid-1'', name = ''Ana Ruiz'', company = ''Foo, Inc.'',
                 role = Some ''Producer'', email = Some ''ana@example.com'', phone = Some ''555 0100'',
                 sector = ''Animation'', status = ''Active'', statusUpdatedAt = None,
                 location = Some ''Madrid'', continent = ''North America'', lat = None, lng = None,
                 website = None, lastContactDate = Some ''2024-03-05T00:00:00.000Z'',
                 nextFollowUpDate = Some ''2024-03-07T00:00:00.000Z'', rate = Some ''500/day'',
                 client_notes = Some ''Met at the festival'', tags = [''Nuke'', ''Pipeline''],
                 logs = [] \<rparr>)"
    by code_simp
  from reversed_header_same_fields [of sampleDate "''uuid-1''"] len
  have "rowClient sampleDate ''uuid-1'' (parse_headers (join '','' (rev export_headers))) (rev ?vs) =
        rowClient sampleDate ''uuid-1'' (parse_headers (join '','' export_headers)) ?vs"
    by blast
  with std show ?thesis
    by simp
qed

subsection \<open>Rows that are passed over\<close>

lemma parseRow_skip:
  "length (splitCSVLine (trim l)) < 2 \<or> \<not> truthyStr (val headers (splitCSVLine (trim l)) ''name'')
   \<Longrightarrow> parseRow D u headers l = Inr None"
  by (auto simp: parseRow_def rowClient_def truthyStr_def Let_def split: option.splits)

lemma parseCSV_loop_skip:
  "(\<And>u. parseRow D u headers l = Inr None) \<Longrightarrow>
   parseCSV_loop D randomUUID n headers (before @ l # after) =
   parseCSV_loop D randomUUID n headers (before @ after)"
  by (induction before arbitrary: n) (simp_all split: sum.splits option.splits)

lemma newClient_company:
  "newClient D u headers values nm = Inr c \<Longrightarrow>
   company c = orElse (val headers values ''company'') ''Unknown''"
  unfolding newClient_def by (auto split: sum.splits)

lemma rowClient_company:
  "rowClient D u headers values = Inr (Some c) \<Longrightarrow>
   company c = orElse (val headers values ''company'') ''Unknown''"
  unfolding rowClient_def
  by (auto split: option.splits if_splits sum.splits dest: newClient_company)

lemma parseRow_company:
  "parseRow D u headers l = Inr (Some c) \<Longrightarrow>
   company c = orElse (val headers (splitCSVLine (trim l)) ''company'') ''Unknown''"
  unfolding parseRow_def Let_def
  by (auto split: if_splits dest: rowClient_company)

text \<open>
  The guards of the loop, on the cells as the line splitter gives them: a row that
  splits into fewer than two cells, and a row whose trimmed name cell is empty or
  missing, makes no contact and no exception, and the import gives the same result as
  without the row; a row that is imported and whose trimmed company cell is empty or
  missing gets the company \<^verbatim>\<open>Unknown\<close>.
\<close>

lemma parseCSV_skips_and_defaults:
  "(length (splitCSVLine (trim l)) < 2 \<or> \<not> truthyStr (val headers (splitCSVLine (trim l)) ''name'') \<longrightarrow>
      parseRow D u headers l = Inr None \<and>
      parseCSV_loop D randomUUID n headers (before @ l # after) =
        parseCSV_loop D randomUUID n headers (before @ after)) \<and>
   (\<forall>c. parseRow D u headers l = Inr (Some c) \<and>
         \<not> truthyStr (val headers (splitCSVLine (trim l)) ''company'') \<longrightarrow>
      company c = ''Unknown'')"
proof (intro conjI impI allI)
  assume skip: "length (splitCSVLine (trim l)) < 2 \<or>
                \<not> truthyStr (val headers (splitCSVLine (trim l)) ''name'')"
  then show "parseRow D u headers l = Inr None"
    by (rule parseRow_skip)
  from skip have "\<And>u. parseRow D u headers l = Inr None"
    by (rule parseRow_skip)
  then show "parseCSV_loop D randomUUID n headers (before @ l # after) =
             parseCSV_loop D randomUUID n headers (before @ after)"
    by (rule parseCSV_loop_skip)
next
  fix c
  assume "parseRow D u headers l = Inr (Some c) \<and>
          \<not> truthyStr (val headers (splitCSVLine (trim l)) ''company'')"
  then show "company c = ''Unknown''"
    using parseRow_company [of D u headers l c] by (auto simp: orElse_def truthyStr_def split: option.splits)
qed

text \<open>
  Claim C7 does not hold of the code. A blank cell written as an empty quoted cell, as
  the export writes every empty text, is not read as blank: the line splitter takes
  the two quotes for an escaped quote before it looks at \<^verbatim>\<open>inQuotes\<close>, and the
  cell becomes one double quote. So the row with the blank name is imported, with a
  double quote as its name, and the row with the blank company gets a double quote as
  its company, not \<^verbatim>\<open>Unknown\<close>.
\<close>

theorem parseCSV_quoted_blank_cells:
  "splitCSVLine [dquote, dquote] = [[dquote]] \<and>
   parseCSV sampleDate sampleUUID 0 (''Name,Company'' @ [LF] @ [dquote, dquote] @ '',Foo'') =
     Inr [\<lparr> client_id = ''uuid-'', name = [dquote], company = ''Foo'', role = Some [],
             email = Some [], phone = Some [], sector = ''Other'', status = ''New'',
             statusUpdatedAt = None, location = Some [], continent = ''North America'',
             lat = None, lng = None, website = None, lastContactDate = None,
             nextFollowUpDate = None, rate = Some [], client_notes = Some [], tags = [],
             logs = [] \<rparr>] \<and>
   parseCSV sampleDate sampleUUID 0 (''Name,Company'' @ [LF] @ ''Ana,'' @ [dquote, dquote]) =
     Inr [\<lparr> client_id = ''uuid-'', name = ''Ana'', company = [dquote], role = Some [],
             email = Some [], phone = Some [], sector = ''Other'', status = ''New'',
             statusUpdatedAt = None, location = Some [], continent = ''North America'',
             lat = None, lng = None, website = None, lastContactDate = None,
             nextFollowUpDate = None, rate = Some [], client_notes = Some [], tags = [],
             logs = [] \<rparr>]"
proof -
  have cell: "splitCSVLine [dquote, dquote] = [[dquote]]"
    by code_simp
  have blank_name:
    "parseCSV sampleDate sampleUUID 0 (''Name,Company'' @ [LF] @ [dquote, dquote] @ '',Foo'') =
     Inr [\<lparr> client_id = ''uuid-'', name = [dquote], company = ''Foo'', role = Some [],
             email = Some [], phone = Some [], sector = ''Other'', status = ''New'',
             statusUpdatedAt = None, location = Some [], continent = ''North America'',
             lat = None, lng = None, website = None, lastContactDate = None,
             nextFollowUpDate = None, rate = Some [], client_notes = Some [], tags = [],
             logs = [] \<rparr>]"
    by code_simp
  have blank_company:
    "parseCSV sampleDate sampleUUID 0 (''Name,Company'' @ [LF] @ ''Ana,'' @ [dquote, dquote]) =
     Inr [\<lparr> client_id = ''uuid-'', name = ''Ana'', company = [dquote], role = Some [],
             email = Some [], phone = Some [], sector = ''Other'', status = ''New'',
             statusUpdatedAt = None, location = Some [], continent = ''North America'',
             lat = None, lng = None, website = None, lastContactDate = None,
             nextFollowUpDate = None, rate = Some [], client_notes = Some [], tags = [],
             logs = [] \<rparr>]"
    by code_simp
  from cell blank_name blank_company show ?thesis
    by (intro conjI)
qed

subsection \<open>Dates that do not parse\<close>

text \<open>
  Claim C3 does not hold of the code. A row with a name whose last contact cell, or
  next follow-up cell, holds a text that is not empty and that the platform does not
  parse as a date makes \<open>parseCSV\<close> throw a \<^verbatim>\<open>RangeError\<close>: no contact is made of
  the row, and none of any other row.
\<close>

theorem parseCSV_invalid_date_throws:
  assumes "trim l \<noteq> []" and "2 \<le> length (splitCSVLine (trim l))"
    and "truthyStr (val headers (splitCSVLine (trim l)) ''name'')"
    and "(\<exists>s. val headers (splitCSVLine (trim l)) ''last contact'' = Some s \<and> s \<noteq> [] \<and>
              dateParse D s = None) \<or>
         (\<exists>s. val headers (splitCSVLine (trim l)) ''next follow'' = Some s \<and> s \<noteq> [] \<and>
              dateParse D s = None)"
  shows "parseRow D u headers l = Inl RangeError \<and>
         parseCSV_loop D randomUUID n headers (l # rest) = Inl RangeError"
proof -
  have "\<And>u. parseRow D u headers l = Inl RangeError"
    using assms
    by (auto simp: parseRow_def rowClient_def newClient_def import_date_def newDate_toISOString_def
        truthyStr_def Let_def split: option.splits sum.splits)
  then show ?thesis
    by simp
qed

theorem parseCSV_invalid_date_throws_witness:
  "dateParse sampleDate ''notadate'' = None \<and>
   parseCSV sampleDate sampleUUID 0
       (''Name,Company,Last Contact'' @ [LF] @ ''Bo,Bar,3/5/2024'' @ [LF] @ ''Ana,Foo,notadate'') =
     Inl RangeError"
proof -
  let ?h = "parse_headers ''Name,Company,Last Contact''"
  have h1: "trim ''Ana,Foo,notadate'' \<noteq> []"
    by code_simp
  have h2: "2 \<le> length (splitCSVLine (trim ''Ana,Foo,notadate''))"
    by code_simp
  have h3: "truthyStr (val ?h (splitCSVLine (trim ''Ana,Foo,notadate'')) ''name'')"
    by code_simp
  have h4: "val ?h (splitCSVLine (trim ''Ana,Foo,notadate'')) ''last contact'' = Some ''notadate'' \<and>
            ''notadate'' \<noteq> [] \<and> dateParse sampleDate ''notadate'' = None"
    by code_simp
  have t: "parseCSV_loop sampleDate sampleUUID (Suc 0) ?h [''Ana,Foo,notadate''] = Inl RangeError"
    by (rule parseCSV_invalid_date_throws [OF h1 h2 h3 disjI1, OF exI, OF h4, THEN conjunct2])
  have first: "(case parseRow sampleDate (sampleUUID 0) ?h ''Bo,Bar,3/5/2024'' of
                  Inr (Some c) \<Rightarrow> True | _ \<Rightarrow> False)"
    by code_simp
  then obtain c where c: "parseRow sampleDate (sampleUUID 0) ?h ''Bo,Bar,3/5/2024'' = Inr (Some c)"
    by (cases "parseRow sampleDate (sampleUUID 0) ?h ''Bo,Bar,3/5/2024''")
      (simp_all only: sum.case option.case split: option.splits)
  have lines: "splitLines (''Name,Company,Last Contact'' @ [LF] @ ''Bo,Bar,3/5/2024'' @ [LF] @ ''Ana,Foo,notadate'') [] =
               [''Name,Company,Last Contact'', ''Bo,Bar,3/5/2024'', ''Ana,Foo,notadate'']"
    by code_simp
  have "parseCSV sampleDate sampleUUID 0
       (''Name,Company,Last Contact'' @ [LF] @ ''Bo,Bar,3/5/2024'' @ [LF] @ ''Ana,Foo,notadate'') =
     parseCSV_loop sampleDate sampleUUID 0 ?h [''Bo,Bar,3/5/2024'', ''Ana,Foo,notadate'']"
    by (simp only: parseCSV_def lines list.case)
  also have "\<dots> = Inl RangeError"
    by (subst parseCSV_loop.simps(2)) (simp only: c t sum.case option.case)
  finally show ?thesis
    using h4 by simp
qed

subsection \<open>Export followed by import\<close>

lemma set_doubleQuotes: "set (doubleQuotes f) \<subseteq> insert dquote (set f)"
  by (induction f) (auto simp: doubleQuotes_Nil doubleQuotes_Cons)

lemma set_esc: "set (esc v) \<subseteq> insert dquote (case v of None \<Rightarrow> {} | Some f \<Rightarrow> set f)"
  using set_doubleQuotes by (auto simp: esc_def truthyStr_def split: option.splits)

lemma esc_ends: "esc v \<noteq> [] \<and> hd (esc v) = dquote \<and> last (esc v) = dquote"
  by (simp add: esc_def split: option.splits)

lemma csv_line:
  assumes "fs \<noteq> []" and "\<forall>f \<in> set fs. LF \<notin> set f"
  shows "join '','' (map (\<lambda>f. esc (Some f)) fs) \<noteq> [] \<and>
         trim (join '','' (map (\<lambda>f. esc (Some f)) fs)) = join '','' (map (\<lambda>f. esc (Some f)) fs) \<and>
         LF \<notin> set (join '','' (map (\<lambda>f. esc (Some f)) fs)) \<and>
         last (join '','' (map (\<lambda>f. esc (Some f)) fs)) \<noteq> CR"
proof -
  let ?es = "map (\<lambda>f. esc (Some f)) fs"
  have ne: "?es \<noteq> []" "hd ?es \<noteq> []" "last ?es \<noteq> []"
    using assms(1) esc_ends by (simp_all add: hd_map last_map)
  have h: "hd (join '','' ?es) = dquote"
    using ne assms(1) esc_ends by (simp add: hd_join hd_map)
  have l: "last (join '','' ?es) = dquote"
    using ne assms(1) esc_ends by (simp add: last_join last_map)
  have j: "join '','' ?es \<noteq> []"
    using ne by (simp add: join_nonempty)
  have ws: "\<not> isWhiteSpace dquote"
    by (simp add: isWhiteSpace_def dquote_def)
  have tr: "trim (join '','' ?es) = join '','' ?es"
    using j h l ws by (simp add: trim_id)
  have "set (join '','' ?es) \<subseteq> set '','' \<union> (\<Union>e \<in> set ?es. set e)"
    by (rule set_join)
  moreover have "\<forall>f \<in> set fs. set (esc (Some f)) \<subseteq> insert dquote (set f)"
    using set_esc [of "Some f" for f] by simp
  ultimately have lf: "LF \<notin> set (join '','' ?es)"
    using assms(2) by (auto simp: LF_def dquote_def)
  from j tr lf l show ?thesis
    by (simp add: dquote_def CR_def)
qed


lemma csv_optE:
  assumes "csv_opt v"
  obtains s where "v = Some s" and "csv_text s"
  using assms by (cases v) (auto simp: csv_opt_def)

lemma csv_dateE:
  assumes "csv_date D d"
  obtains s t where "d = Some s" and "s \<noteq> []" and "csv_text (newDate_toLocaleDateString D s)"
    and "dateParse D (newDate_toLocaleDateString D s) = Some t"
  using assms by (cases d) (auto simp: csv_date_def)

lemma import_tags_csv:
  assumes "ts \<noteq> []" and "\<forall>t \<in> set ts. csv_text t \<and> CHR '','' \<notin> set t"
  shows "import_tags (Some (trim (join '', '' ts))) = ts"
proof -
  have j: "csv_text (join '', '' ts)"
    using assms by (simp add: csv_text_join_tags)
  then have "trim (join '', '' ts) = join '', '' ts" and "join '', '' ts \<noteq> []"
    by (simp_all add: csv_text_def)
  moreover have "filter (\<lambda>t. t \<noteq> []) (map trim (splitComma (join '', '' ts) [])) = ts"
    using assms by (intro import_tags_join_aux) (auto simp: csv_text_def)
  ultimately show ?thesis
    by (simp add: import_tags_def)
qed

lemma import_date_csv:
  "csv_text x \<Longrightarrow> dateParse D x = Some t \<Longrightarrow> import_date D (Some (trim x)) = Inr (Some (toISOString D t))"
  by (simp add: import_date_def newDate_toISOString_def csv_text_def)

lemma reimportRow_csv_client:
  assumes "csv_client D c"
  shows "\<exists>c'. reimportRow D u c = Inr (Some c') \<and>
           client_id c' = u \<and> name c' = name c \<and> company c' = company c \<and> role c' = role c \<and>
           status c' = status c \<and> sector c' = sector c \<and> email c' = email c \<and>
           phone c' = phone c \<and> location c' = location c \<and> rate c' = rate c \<and>
           client_notes c' = client_notes c \<and> tags c' = tags c \<and> logs c' = [] \<and>
           continent c' = Continent_NORTH_AMERICA \<and>
           (\<forall>s. lastContactDate c = Some s \<longrightarrow>
              (\<exists>t. dateParse D (newDate_toLocaleDateString D s) = Some t \<and>
                   lastContactDate c' = Some (toISOString D t))) \<and>
           (\<forall>s. nextFollowUpDate c = Some s \<longrightarrow>
              (\<exists>t. dateParse D (newDate_toLocaleDateString D s) = Some t \<and>
                   nextFollowUpDate c' = Some (toISOString D t)))"
    and "LF \<notin> set (join '','' (export_row D c)) \<and> last (join '','' (export_row D c)) \<noteq> CR"
proof -
  from assms have texts: "csv_text (name c)" "csv_text (company c)" "csv_text (status c)"
      "csv_text (sector c)"
    and tg: "tags c \<noteq> []" "\<forall>t \<in> set (tags c). csv_text t \<and> CHR '','' \<notin> set t"
    by (simp_all add: csv_client_def)
  from assms obtain r where r: "role c = Some r" "csv_text r"
    by (auto simp: csv_client_def elim: csv_optE)
  from assms obtain e where e: "email c = Some e" "csv_text e"
    by (auto simp: csv_client_def elim: csv_optE)
  from assms obtain p where p: "phone c = Some p" "csv_text p"
    by (auto simp: csv_client_def elim: csv_optE)
  from assms obtain l where l: "location c = Some l" "csv_text l"
    by (auto simp: csv_client_def elim: csv_optE)
  from assms obtain ra where ra: "rate c = Some ra" "csv_text ra"
    by (auto simp: csv_client_def elim: csv_optE)
  from assms obtain no where no: "client_notes c = Some no" "csv_text no"
    by (auto simp: csv_client_def elim: csv_optE)
  from assms have "csv_date D (lastContactDate c)"
    by (simp add: csv_client_def)
  then obtain s1 t1 where d1: "lastContactDate c = Some s1" "s1 \<noteq> []"
      "csv_text (newDate_toLocaleDateString D s1)"
      "dateParse D (newDate_toLocaleDateString D s1) = Some t1"
    by (rule csv_dateE)
  from assms have "csv_date D (nextFollowUpDate c)"
    by (simp add: csv_client_def)
  then obtain s2 t2 where d2: "nextFollowUpDate c = Some s2" "s2 \<noteq> []"
      "csv_text (newDate_toLocaleDateString D s2)"
      "dateParse D (newDate_toLocaleDateString D s2) = Some t2"
    by (rule csv_dateE)
  define cells where "cells = [name c, company c, r, status c, sector c, e, p, l,
      newDate_toLocaleDateString D s1, newDate_toLocaleDateString D s2, ra, no, join '', '' (tags c)]"
  have jt: "csv_text (join '', '' (tags c))"
    using tg by (simp add: csv_text_join_tags)
  have all: "\<forall>f \<in> set cells. csv_text f"
    using texts r e p l ra no d1 d2 jt by (simp add: cells_def)
  have row: "export_row D c = map (\<lambda>f. esc (Some f)) cells"
    using r e p l ra no d1 d2 by (simp add: export_row_def export_date_def cells_def)
  have len: "length cells = 13" and ne: "cells \<noteq> []"
    by (simp_all add: cells_def)
  have line: "join '','' (export_row D c) \<noteq> []"
      "trim (join '','' (export_row D c)) = join '','' (export_row D c)"
      "LF \<notin> set (join '','' (export_row D c))"
      "last (join '','' (export_row D c)) \<noteq> CR"
    using csv_line [OF ne, of] all by (simp_all add: row csv_text_def)
  have split: "splitCSVLine (join '','' (export_row D c)) = cells"
    unfolding row using ne all by (intro splitCSVLine_esc) (auto simp: csv_text_def)
  have nth: "cells ! 0 = name c" "cells ! 1 = company c" "cells ! 2 = r" "cells ! 3 = status c"
      "cells ! 4 = sector c" "cells ! 5 = e" "cells ! 6 = p" "cells ! 7 = l"
      "cells ! 8 = newDate_toLocaleDateString D s1" "cells ! 9 = newDate_toLocaleDateString D s2"
      "cells ! 10 = ra" "cells ! 11 = no" "cells ! 12 = join '', '' (tags c)"
      "cells ! Suc 0 = company c"
    by (simp_all add: cells_def)
  have tr: "trim (name c) = name c" "trim (company c) = company c" "trim r = r"
      "trim (status c) = status c" "trim (sector c) = sector c" "trim e = e" "trim p = p"
      "trim l = l" "trim ra = ra" "trim no = no"
    using texts r e p l ra no by (simp_all add: csv_text_def)
  have nonempty: "name c \<noteq> []" "company c \<noteq> []" "status c \<noteq> []" "sector c \<noteq> []"
    using texts by (simp_all add: csv_text_def)
  have dates: "import_date D (Some (trim (newDate_toLocaleDateString D s1))) = Inr (Some (toISOString D t1))"
      "import_date D (Some (trim (newDate_toLocaleDateString D s2))) = Inr (Some (toISOString D t2))"
    using d1 d2 by (simp_all add: import_date_csv)
  have tags: "import_tags (Some (trim (join '', '' (tags c)))) = tags c"
    using tg by (rule import_tags_csv)
  have new: "newClient D u (parse_headers (join '','' export_headers)) cells (name c) =
      Inr \<lparr> client_id = u, name = name c, company = company c, role = Some r, email = Some e,
            phone = Some p, sector = sector c, status = status c, statusUpdatedAt = None,
            location = Some l, continent = Continent_NORTH_AMERICA, lat = None, lng = None,
            website = None, lastContactDate = Some (toISOString D t1),
            nextFollowUpDate = Some (toISOString D t2), rate = Some ra, client_notes = Some no,
            tags = tags c, logs = [] \<rparr>"
    by (simp add: newClient_def val_std [OF len] nth tr dates tags orElse_def nonempty)
  have "rowClient D u (parse_headers (join '','' export_headers)) cells =
      Inr (Some \<lparr> client_id = u, name = name c, company = company c, role = Some r, email = Some e,
            phone = Some p, sector = sector c, status = status c, statusUpdatedAt = None,
            location = Some l, continent = Continent_NORTH_AMERICA, lat = None, lng = None,
            website = None, lastContactDate = Some (toISOString D t1),
            nextFollowUpDate = Some (toISOString D t2), rate = Some ra, client_notes = Some no,
            tags = tags c, logs = [] \<rparr>)"
    by (simp add: rowClient_def val_std [OF len] nth tr nonempty new)
  then have "reimportRow D u c =
      Inr (Some \<lparr> client_id = u, name = name c, company = company c, role = Some r, email = Some e,
            phone = Some p, sector = sector c, status = status c, statusUpdatedAt = None,
            location = Some l, continent = Continent_NORTH_AMERICA, lat = None, lng = None,
            website = None, lastContactDate = Some (toISOString D t1),
            nextFollowUpDate = Some (toISOString D t2), rate = Some ra, client_notes = Some no,
            tags = tags c, logs = [] \<rparr>)"
    using line len by (simp add: reimportRow_def parseRow_def split Let_def)
  then show "\<exists>c'. reimportRow D u c = Inr (Some c') \<and>
           client_id c' = u \<and> name c' = name c \<and> company c' = company c \<and> role c' = role c \<and>
           status c' = status c \<and> sector c' = sector c \<and> email c' = email c \<and>
           phone c' = phone c \<and> location c' = location c \<and> rate c' = rate c \<and>
           client_notes c' = client_notes c \<and> tags c' = tags c \<and> logs c' = [] \<and>
           continent c' = Continent_NORTH_AMERICA \<and>
           (\<forall>s. lastContactDate c = Some s \<longrightarrow>
              (\<exists>t. dateParse D (newDate_toLocaleDateString D s) = Some t \<and>
                   lastContactDate c' = Some (toISOString D t))) \<and>
           (\<forall>s. nextFollowUpDate c = Some s \<longrightarrow>
              (\<exists>t. dateParse D (newDate_toLocaleDateString D s) = Some t \<and>
                   nextFollowUpDate c' = Some (toISOString D t)))"
    using r e p l ra no d1 d2 by simp
  from line show "LF \<notin> set (join '','' (export_row D c)) \<and> last (join '','' (export_row D c)) \<noteq> CR"
    by simp
qed


lemma parseCSV_loop_reimport:
  assumes "\<forall>c \<in> set cs. \<forall>u. \<exists>c'. reimportRow D u c = Inr (Some c')"
  shows "\<exists>cs'. parseCSV_loop D randomUUID n (parse_headers (join '','' export_headers))
                 (map (\<lambda>c. join '','' (export_row D c)) cs) = Inr cs' \<and>
               length cs' = length cs \<and>
               (\<forall>i < length cs. reimportRow D (randomUUID (n + i)) (cs ! i) = Inr (Some (cs' ! i)))"
  using assms
proof (induction cs arbitrary: n)
  case Nil
  then show ?case by simp
next
  case (Cons c cs)
  from Cons.prems have "\<exists>c'. reimportRow D (randomUUID n) c = Inr (Some c')"
    by simp
  then obtain c' where c': "reimportRow D (randomUUID n) c = Inr (Some c')"
    by blast
  from Cons.prems have "\<forall>c \<in> set cs. \<forall>u. \<exists>c'. reimportRow D u c = Inr (Some c')"
    by simp
  from Cons.IH [OF this, of "Suc n"] obtain cs' where
    cs': "parseCSV_loop D randomUUID (Suc n) (parse_headers (join '','' export_headers))
            (map (\<lambda>c. join '','' (export_row D c)) cs) = Inr cs'"
      "length cs' = length cs"
      "\<forall>i < length cs. reimportRow D (randomUUID (Suc n + i)) (cs ! i) = Inr (Some (cs' ! i))"
    by blast
  have row: "parseRow D (randomUUID n) (parse_headers (join '','' export_headers))
               (join '','' (export_row D c)) = Inr (Some c')"
    using c' by (simp add: reimportRow_def)
  have "parseCSV_loop D randomUUID n (parse_headers (join '','' export_headers))
          (map (\<lambda>c. join '','' (export_row D c)) (c # cs)) = Inr (c' # cs')"
    by (simp add: row cs'(1))
  moreover have "length (c' # cs') = length (c # cs)"
    using cs'(2) by simp
  moreover have "\<forall>i < length (c # cs).
      reimportRow D (randomUUID (n + i)) ((c # cs) ! i) = Inr (Some ((c' # cs') ! i))"
  proof (intro allI impI)
    fix i
    assume "i < length (c # cs)"
    then show "reimportRow D (randomUUID (n + i)) ((c # cs) ! i) = Inr (Some ((c' # cs') ! i))"
      using c' cs'(3) by (cases i) simp_all
  qed
  ultimately show ?case
    by blast
qed

lemma header_line:
  "LF \<notin> set (join '','' export_headers) \<and> last (join '','' export_headers) \<noteq> CR"
  by code_simp

lemma splitLines_export:
  assumes "\<forall>c \<in> set cs. csv_client D c"
  shows "splitLines (exportToCSV D cs) [] =
         join '','' export_headers # map (\<lambda>c. join '','' (export_row D c)) cs"
  unfolding exportToCSV_def
proof (rule splitLines_join)
  show "join '','' export_headers # map (\<lambda>c. join '','' (export_row D c)) cs \<noteq> []"
    by simp
  show "\<forall>l \<in> set (join '','' export_headers # map (\<lambda>c. join '','' (export_row D c)) cs).
          LF \<notin> set l \<and> (l = [] \<or> last l \<noteq> CR)"
    using assms header_line reimportRow_csv_client(2) [of D] by auto
qed

text \<open>
  Where export followed by import does return the contacts: on contacts all of whose
  texts survive the format, and whose dates the platform prints as such a text and
  reads back from it.
\<close>

lemma import_export_roundtrip:
  assumes "\<forall>c \<in> set cs. csv_client D c"
  shows "\<exists>cs'. parseCSV D randomUUID n (exportToCSV D cs) = Inr cs' \<and>
           length cs' = length cs \<and>
           (\<forall>i < length cs.
              client_id (cs' ! i) = randomUUID (n + i) \<and>
              name (cs' ! i) = name (cs ! i) \<and> company (cs' ! i) = company (cs ! i) \<and>
              role (cs' ! i) = role (cs ! i) \<and> status (cs' ! i) = status (cs ! i) \<and>
              sector (cs' ! i) = sector (cs ! i) \<and> email (cs' ! i) = email (cs ! i) \<and>
              phone (cs' ! i) = phone (cs ! i) \<and> location (cs' ! i) = location (cs ! i) \<and>
              rate (cs' ! i) = rate (cs ! i) \<and> client_notes (cs' ! i) = client_notes (cs ! i) \<and>
              tags (cs' ! i) = tags (cs ! i) \<and> logs (cs' ! i) = [] \<and>
              continent (cs' ! i) = Continent_NORTH_AMERICA \<and>
              (\<forall>s. lastContactDate (cs ! i) = Some s \<longrightarrow>
                 (\<exists>t. dateParse D (newDate_toLocaleDateString D s) = Some t \<and>
                      lastContactDate (cs' ! i) = Some (toISOString D t))) \<and>
              (\<forall>s. nextFollowUpDate (cs ! i) = Some s \<longrightarrow>
                 (\<exists>t. dateParse D (newDate_toLocaleDateString D s) = Some t \<and>
                      nextFollowUpDate (cs' ! i) = Some (toISOString D t))))"
proof -
  have rows: "\<forall>c \<in> set cs. \<forall>u. \<exists>c'. reimportRow D u c = Inr (Some c')"
    using assms reimportRow_csv_client(1) [of D] by blast
  from parseCSV_loop_reimport [OF rows, of randomUUID n] obtain cs' where
    cs': "parseCSV_loop D randomUUID n (parse_headers (join '','' export_headers))
            (map (\<lambda>c. join '','' (export_row D c)) cs) = Inr cs'"
      "length cs' = length cs"
      "\<forall>i < length cs. reimportRow D (randomUUID (n + i)) (cs ! i) = Inr (Some (cs' ! i))"
    by blast
  have sl: "splitLines (exportToCSV D cs) [] =
            join '','' export_headers # map (\<lambda>c. join '','' (export_row D c)) cs"
    using assms by (rule splitLines_export)
  have "parseCSV D randomUUID n (exportToCSV D cs) = Inr cs'"
    unfolding parseCSV_def sl using cs'(1) cs'(2) by (cases cs) simp_all
  moreover have "\<forall>i < length cs.
              client_id (cs' ! i) = randomUUID (n + i) \<and>
              name (cs' ! i) = name (cs ! i) \<and> company (cs' ! i) = company (cs ! i) \<and>
              role (cs' ! i) = role (cs ! i) \<and> status (cs' ! i) = status (cs ! i) \<and>
              sector (cs' ! i) = sector (cs ! i) \<and> email (cs' ! i) = email (cs ! i) \<and>
              phone (cs' ! i) = phone (cs ! i) \<and> location (cs' ! i) = location (cs ! i) \<and>
              rate (cs' ! i) = rate (cs ! i) \<and> client_notes (cs' ! i) = client_notes (cs ! i) \<and>
              tags (cs' ! i) = tags (cs ! i) \<and> logs (cs' ! i) = [] \<and>
              continent (cs' ! i) = Continent_NORTH_AMERICA \<and>
              (\<forall>s. lastContactDate (cs ! i) = Some s \<longrightarrow>
                 (\<exists>t. dateParse D (newDate_toLocaleDateString D s) = Some t \<and>
                      lastContactDate (cs' ! i) = Some (toISOString D t))) \<and>
              (\<forall>s. nextFollowUpDate (cs ! i) = Some s \<longrightarrow>
                 (\<exists>t. dateParse D (newDate_toLocaleDateString D s) = Some t \<and>
                      nextFollowUpDate (cs' ! i) = Some (toISOString D t)))"
  proof (intro allI impI)
    fix i
    assume i: "i < length cs"
    then have "csv_client D (cs ! i)"
      using assms by simp
    from reimportRow_csv_client(1) [OF this, of "randomUUID (n + i)"] cs'(3) i
    show "client_id (cs' ! i) = randomUUID (n + i) \<and>
              name (cs' ! i) = name (cs ! i) \<and> company (cs' ! i) = company (cs ! i) \<and>
              role (cs' ! i) = role (cs ! i) \<and> status (cs' ! i) = status (cs ! i) \<and>
              sector (cs' ! i) = sector (cs ! i) \<and> email (cs' ! i) = email (cs ! i) \<and>
              phone (cs' ! i) = phone (cs ! i) \<and> location (cs' ! i) = location (cs ! i) \<and>
              rate (cs' ! i) = rate (cs ! i) \<and> client_notes (cs' ! i) = client_notes (cs ! i) \<and>
              tags (cs' ! i) = tags (cs ! i) \<and> logs (cs' ! i) = [] \<and>
              continent (cs' ! i) = Continent_NORTH_AMERICA \<and>
              (\<forall>s. lastContactDate (cs ! i) = Some s \<longrightarrow>
                 (\<exists>t. dateParse D (newDate_toLocaleDateString D s) = Some t \<and>
                      lastContactDate (cs' ! i) = Some (toISOString D t))) \<and>
              (\<forall>s. nextFollowUpDate (cs ! i) = Some s \<longrightarrow>
                 (\<exists>t. dateParse D (newDate_toLocaleDateString D s) = Some t \<and>
                      nextFollowUpDate (cs' ! i) = Some (toISOString D t)))"
      by auto
  qed
  ultimately show ?thesis
    using cs'(2) by blast
qed

text \<open>
  Claim C1 does not hold of the code. The export writes every empty text as an empty
  quoted cell, and the line splitter reads that cell as one double quote. The contact
  of the specification's own example has no role, email, phone, location, rate or
  dates: all these cells come back as a double quote, and the import throws a
  \<^verbatim>\<open>RangeError\<close> on the date cell, so the import of the export returns no
  sequence at all. With every other text and both dates present, a contact saved
  without a phone comes back with a double quote as its phone.
\<close>

theorem import_export_empty_cells:
  "splitCSVLine (join '','' (export_row sampleDate specExample)) =
     [''Ana Ruiz'', ''Foo, Inc.'', [dquote], ''New'', ''Other'', [dquote], [dquote], [dquote],
      [dquote], [dquote], [dquote], [dquote], ''Nuke, Pipeline''] \<and>
   parseCSV sampleDate sampleUUID 0 (exportToCSV sampleDate [specExample]) = Inl RangeError \<and>
   parseCSV sampleDate sampleUUID 0
       (exportToCSV sampleDate [(sampleClient ''id-1'' ''Ana Ruiz'' ''Foo, Inc.'')\<lparr> phone := Some [] \<rparr>]) =
     Inr [\<lparr> client_id = ''uuid-'', name = ''Ana Ruiz'', company = ''Foo, Inc.'',
             role = Some ''Producer'', email = Some ''ana@example.com'', phone = Some [dquote],
             sector = ''Animation'', status = ''Active'', statusUpdatedAt = None,
             location = Some ''Madrid'', continent = ''North America'', lat = None, lng = None,
             website = None, lastContactDate = Some ''2024-03-05T00:00:00.000Z'',
             nextFollowUpDate = Some ''2024-03-07T00:00:00.000Z'', rate = Some ''500/day'',
             client_notes = Some ''Met at the festival'', tags = [''Nuke'', ''Pipeline''],
             logs = [] \<rparr>]"
proof -
  have cells: "splitCSVLine (join '','' (export_row sampleDate specExample)) =
     [''Ana Ruiz'', ''Foo, Inc.'', [dquote], ''New'', ''Other'', [dquote], [dquote], [dquote],
      [dquote], [dquote], [dquote], [dquote], ''Nuke, Pipeline'']"
    by code_simp
  have throws: "parseCSV sampleDate sampleUUID 0 (exportToCSV sampleDate [specExample]) = Inl RangeError"
    by code_simp
  have phone: "parseCSV sampleDate sampleUUID 0
       (exportToCSV sampleDate [(sampleClient ''id-1'' ''Ana Ruiz'' ''Foo, Inc.'')\<lparr> phone := Some [] \<rparr>]) =
     Inr [\<lparr> client_id = ''uuid-'', name = ''Ana Ruiz'', company = ''Foo, Inc.'',
             role = Some ''Producer'', email = Some ''ana@example.com'', phone = Some [dquote],
             sector = ''Animation'', status = ''Active'', statusUpdatedAt = None,
             location = Some ''Madrid'', continent = ''North America'', lat = None, lng = None,
             website = None, lastContactDate = Some ''2024-03-05T00:00:00.000Z'',
             nextFollowUpDate = Some ''2024-03-07T00:00:00.000Z'', rate = Some ''500/day'',
             client_notes = Some ''Met at the festival'', tags = [''Nuke'', ''Pipeline''],
             logs = [] \<rparr>]"
    by code_simp
  from cells throws phone show ?thesis
    by (intro conjI)
qed

end
